theory Spec2Isabelle
  imports Complex_Main
begin

section \<open>Numbers and strings\<close>

text \<open>
  A JavaScript \<open>number\<close> that carries a quantity (milliseconds, seconds, currency, a
  score) is a \<^typ>\<open>real\<close>; NaN, the infinities and rounding are outside the model.
  A loop counter or an array index is a \<^typ>\<open>nat\<close>. A JavaScript string is a
  \<^typ>\<open>string\<close>; text outside ASCII is kept as its UTF-8 bytes.
\<close>

section \<open>utils/cost-tracker.ts\<close>

datatype resolution = R720p | R1080p

text \<open>The constant table \<open>SORA2_PRICING\<close>.\<close>

fun SORA2_PRICING_perSecond :: "resolution \<Rightarrow> real" where
  "SORA2_PRICING_perSecond R720p = 0.5"
| "SORA2_PRICING_perSecond R1080p = 1.0"

definition SORA2_PRICING_minimumCharge :: real where
  "SORA2_PRICING_minimumCharge = 5.0"

definition SORA2_PRICING_monthlyBudget :: real where
  "SORA2_PRICING_monthlyBudget = 5000"

text \<open>One entry of the cost history; the timestamp is the clock reading of \<open>new Date()\<close>.\<close>

record CostEntry =
  timestamp :: nat
  amount :: real
  description :: string

text \<open>The private fields of class \<open>CostTracker\<close>.\<close>

record CostTracker =
  totalCost :: real
  monthlyBudget :: real
  costs :: "CostEntry list"

definition newCostTracker :: "real \<Rightarrow> CostTracker" where
  "newCostTracker budget = \<lparr> totalCost = 0, monthlyBudget = budget, costs = [] \<rparr>"

definition calculateVideoCost :: "real \<Rightarrow> resolution \<Rightarrow> real" where
  "calculateVideoCost duration res =
     (let perSecondCost = SORA2_PRICING_perSecond res;
          calculatedCost = duration * perSecondCost
      in max calculatedCost SORA2_PRICING_minimumCharge)"

text \<open>
  The test \<open>usagePercent >= 90\<close> of \<open>recordCost\<close>. With a budget of zero JavaScript
  divides to \<open>Infinity\<close> for a positive total (the test holds) and to \<open>NaN\<close> or
  \<open>-Infinity\<close> otherwise (the test fails).
\<close>

definition budgetWarning :: "CostTracker \<Rightarrow> bool" where
  "budgetWarning t =
     (if monthlyBudget t = 0 then 0 < totalCost t
      else 90 \<le> totalCost t / monthlyBudget t * 100)"

text \<open>
  \<open>recordCost\<close> adds to the running total, appends the entry and logs; the second
  component tells whether the budget warning was logged. It has no \<open>throw\<close>.
\<close>

definition recordCost :: "nat \<Rightarrow> real \<Rightarrow> string \<Rightarrow> CostTracker \<Rightarrow> CostTracker \<times> bool" where
  "recordCost now amt descr t =
     (let t' = t\<lparr> totalCost := totalCost t + amt,
                  costs := costs t @ [\<lparr> timestamp = now, amount = amt, description = descr \<rparr>] \<rparr>
      in (t', budgetWarning t'))"

definition getTotalCost :: "CostTracker \<Rightarrow> real" where
  "getTotalCost t = totalCost t"

definition getRemainingBudget :: "CostTracker \<Rightarrow> real" where
  "getRemainingBudget t = max 0 (monthlyBudget t - totalCost t)"

definition isOverBudget :: "CostTracker \<Rightarrow> bool" where
  "isOverBudget t = (monthlyBudget t \<le> totalCost t)"

definition reset :: "CostTracker \<Rightarrow> CostTracker" where
  "reset t = t\<lparr> totalCost := 0, costs := [] \<rparr>"

text \<open>
  A client of the class: any sequence of calls of its methods. The queries leave the
  fields as they are.
\<close>

datatype TrackerCall =
    CallRecordCost nat real string
  | CallReset
  | CallGetTotalCost
  | CallGetRemainingBudget
  | CallIsOverBudget
  | CallGetCostHistory

fun trackerCall :: "CostTracker \<Rightarrow> TrackerCall \<Rightarrow> CostTracker" where
  "trackerCall t (CallRecordCost now amt descr) = fst (recordCost now amt descr t)"
| "trackerCall t CallReset = reset t"
| "trackerCall t CallGetTotalCost = t"
| "trackerCall t CallGetRemainingBudget = t"
| "trackerCall t CallIsOverBudget = t"
| "trackerCall t CallGetCostHistory = t"

definition trackerCalls :: "CostTracker \<Rightarrow> TrackerCall list \<Rightarrow> CostTracker" where
  "trackerCalls t cs = foldl trackerCall t cs"

text \<open>The number of \<open>recordCost\<close> calls since the last \<open>reset\<close>, read off the call sequence.\<close>

fun recordsSinceReset :: "TrackerCall list \<Rightarrow> nat" where
  "recordsSinceReset [] = 0"
| "recordsSinceReset (c # cs) =
     (if CallReset \<in> set cs then recordsSinceReset cs
      else (case c of CallRecordCost _ _ _ \<Rightarrow> Suc (recordsSinceReset cs) | _ \<Rightarrow> recordsSinceReset cs))"

section \<open>utils/retry.ts\<close>

text \<open>
  What a \<open>throw\<close> carries: an \<open>Error\<close> object with its \<open>name\<close> and \<open>message\<close>, or
  any other value. Of such a value the code uses two things: the text \<open>String(value)\<close>
  gives for it, and whether \<open>JSON.stringify\<close> accepts it. The second field is \<open>None\<close>
  when it does and otherwise holds what \<open>JSON.stringify\<close> throws (a \<open>TypeError\<close> for a
  BigInt or for an object that refers to itself).
\<close>

datatype thrown =
    JsError (errName: string) (errMessage: string)
  | NonError (shown: string) (unserialisable: "thrown option")

definition newError :: "string \<Rightarrow> thrown" where
  "newError msg = JsError ''Error'' msg"

text \<open>\<open>haystack.includes(needle)\<close> on strings.\<close>

fun stringIncludes :: "string \<Rightarrow> string \<Rightarrow> bool" where
  "stringIncludes [] needle = (needle = [])"
| "stringIncludes (c # cs) needle = (take (length needle) (c # cs) = needle \<or> stringIncludes cs needle)"

text \<open>The decimal text of an integer, as a template literal prints it.\<close>

fun digitChar :: "nat \<Rightarrow> char" where
  "digitChar n = char_of (48 + n)"

function showNat :: "nat \<Rightarrow> string" where
  "showNat n = (if n < 10 then [digitChar n] else showNat (n div 10) @ [digitChar (n mod 10)])"
  by pat_completeness auto
termination
  by (relation "measure id") auto

definition showInt :: "int \<Rightarrow> string" where
  "showInt i = (if i < 0 then ''-'' @ showNat (nat (- i)) else showNat (nat i))"

record RetryConfig =
  maxRetries :: int
  initialDelay :: real
  maxDelay :: real
  backoffMultiplier :: real
  retryableErrors :: "string list"

definition defaultRetryConfig :: RetryConfig where
  "defaultRetryConfig =
     \<lparr> maxRetries = 3, initialDelay = 30000, maxDelay = 300000, backoffMultiplier = 2,
       retryableErrors = [''RateLimitExceeded'', ''APITimeout'', ''GenerationFailed'', ''NetworkError''] \<rparr>"

fun isRetryableError :: "thrown \<Rightarrow> string list \<Rightarrow> bool" where
  "isRetryableError (JsError name message) retryable =
     list_ex (\<lambda>retryableError. stringIncludes message retryableError \<or> name = retryableError) retryable"
| "isRetryableError (NonError v u) retryable = False"

definition calculateBackoffDelay :: "nat \<Rightarrow> RetryConfig \<Rightarrow> real" where
  "calculateBackoffDelay attempt config =
     (let delay = initialDelay config * backoffMultiplier config ^ attempt
      in min delay (maxDelay config))"

text \<open>
  The effects a run leaves behind, in order: \<open>Slept d\<close> for \<open>await sleep(d)\<close>,
  \<open>Called k\<close> for the invocation of the wrapped operation in round \<open>k\<close> of
  \<open>withRetry\<close>, \<open>Queried k\<close> for the \<open>k\<close>-th status request of the poller. The
  operation \<open>fn\<close> of \<open>withRetry\<close> is effectful; \<open>fn k\<close> is what its invocation in
  round \<open>k\<close> settles with (\<open>Inl\<close> a thrown value). Of the logger the model keeps
  what can change the outcome of a call: a \<open>throw\<close> out of it.
\<close>

datatype Effect = is_Slept: Slept real | is_Called: Called nat | is_Queried: Queried nat

text \<open>The message of the error thrown after the loop.\<close>

definition retriesFailedText :: string where
  "retriesFailedText = [CHR 0xE5, CHR 0x9B, CHR 0x9E, CHR 0xE3, CHR 0x81, CHR 0xAE, CHR 0xE3, CHR 0x83, CHR 0xAA, CHR 0xE3, CHR 0x83, CHR 0x88, CHR 0xE3, CHR 0x83, CHR 0xA9, CHR 0xE3, CHR 0x82, CHR 0xA4, CHR 0xE5, CHR 0xBE, CHR 0x8C, CHR 0xE3, CHR 0x82, CHR 0x82, CHR 0xE5, CHR 0xA4, CHR 0xB1, CHR 0xE6, CHR 0x95, CHR 0x97] @ '': ''"

fun lastErrorText :: "thrown option \<Rightarrow> string" where
  "lastErrorText None = ''undefined''"
| "lastErrorText (Some (JsError name message)) = message"
| "lastErrorText (Some (NonError v u)) = v"

definition retriesExhausted :: "string \<Rightarrow> RetryConfig \<Rightarrow> thrown option \<Rightarrow> thrown" where
  "retriesExhausted context config lastError =
     newError (context @ '': '' @ showInt (maxRetries config) @ retriesFailedText @ lastErrorText lastError)"

text \<open>
  utils/logger.ts: \<open>logger.error(message, error)\<close> and \<open>logger.warn(message, meta)\<close> on a
  caught value. The shared logger has level INFO, so both print, and \<open>format\<close> runs
  \<open>JSON.stringify\<close> on the meta object. For an \<open>Error\<close> the meta object holds its
  message (and stack), which are strings; for any other value it holds the value itself.
  The result is what the logger call throws, \<open>None\<close> when it returns.
\<close>

fun loggerThrows :: "thrown \<Rightarrow> thrown option" where
  "loggerThrows (JsError name message) = None"
| "loggerThrows (NonError v u) = u"

text \<open>
  The \<open>for\<close> loop of \<open>withRetry\<close>, from round \<open>attempt\<close> on; \<open>lastError\<close> is
  \<open>None\<close> while the variable is still \<open>undefined\<close>. The three logger calls of the
  \<open>catch\<close> block stand before the \<open>throw\<close>, the \<open>break\<close> and the next round; a throw
  out of one of them leaves \<open>withRetry\<close> at once.
\<close>

function withRetryLoop ::
  "(nat \<Rightarrow> thrown + 'a) \<Rightarrow> RetryConfig \<Rightarrow> string \<Rightarrow> nat \<Rightarrow> thrown option
     \<Rightarrow> (thrown + 'a) \<times> Effect list" where
  "withRetryLoop fn config context attempt lastError =
     (if int attempt \<le> maxRetries config then
        (let waited = (if 0 < attempt then [Slept (calculateBackoffDelay (attempt - 1) config)] else [])
         in case fn attempt of
              Inr v \<Rightarrow> (Inr v, waited @ [Called attempt])
            | Inl error \<Rightarrow>
                if \<not> isRetryableError error (retryableErrors config)
                then (case loggerThrows error of
                        Some logging \<Rightarrow> (Inl logging, waited @ [Called attempt])
                      | None \<Rightarrow> (Inl error, waited @ [Called attempt]))
                else if int attempt = maxRetries config
                then (case loggerThrows error of
                        Some logging \<Rightarrow> (Inl logging, waited @ [Called attempt])
                      | None \<Rightarrow>
                          (Inl (retriesExhausted context config (Some error)), waited @ [Called attempt]))
                else (case loggerThrows error of
                        Some logging \<Rightarrow> (Inl logging, waited @ [Called attempt])
                      | None \<Rightarrow>
                          (case withRetryLoop fn config context (Suc attempt) (Some error) of
                             (r, events) \<Rightarrow> (r, waited @ [Called attempt] @ events))))
      else (Inl (retriesExhausted context config lastError), []))"
  by pat_completeness auto
termination
  by (relation "measure (\<lambda>(fn, config, context, attempt, lastError). nat (maxRetries config + 1 - int attempt))") auto

declare withRetryLoop.simps [simp del]

definition withRetry :: "(nat \<Rightarrow> thrown + 'a) \<Rightarrow> RetryConfig \<Rightarrow> string \<Rightarrow> (thrown + 'a) \<times> Effect list" where
  "withRetry fn config context = withRetryLoop fn config context 0 None"

text \<open>The events one round contributes when its delay follows the backoff formula.\<close>

definition backoffSegment :: "RetryConfig \<Rightarrow> nat \<Rightarrow> Effect list" where
  "backoffSegment config k =
     (if k = 0 then [] else [Slept (min (initialDelay config * backoffMultiplier config ^ (k - 1)) (maxDelay config))])
     @ [Called k]"

section \<open>types.ts and prompts/ugc-templates.ts\<close>

datatype AspectRatio = AR_16_9 | AR_9_16 | AR_1_1 | AR_4_5

datatype UGCStyle = Casual | Testimonial | Tutorial | Unboxing | Lifestyle | Comparison

text \<open>The string values of the two union types.\<close>

fun aspectRatioText :: "AspectRatio \<Rightarrow> string" where
  "aspectRatioText AR_16_9 = ''16:9''"
| "aspectRatioText AR_9_16 = ''9:16''"
| "aspectRatioText AR_1_1 = ''1:1''"
| "aspectRatioText AR_4_5 = ''4:5''"

fun ugcStyleText :: "UGCStyle \<Rightarrow> string" where
  "ugcStyleText Casual = ''casual''"
| "ugcStyleText Testimonial = ''testimonial''"
| "ugcStyleText Tutorial = ''tutorial''"
| "ugcStyleText Unboxing = ''unboxing''"
| "ugcStyleText Lifestyle = ''lifestyle''"
| "ugcStyleText Comparison = ''comparison''"

fun ugcPromptTemplates :: "UGCStyle \<Rightarrow> string" where
  "ugcPromptTemplates Casual =
     ''A casual smartphone video showing {product} in everyday use, ''
     @ ''natural lighting, slight camera shake, authentic user perspective, ''
     @ ''relaxed atmosphere, genuine moments''"
| "ugcPromptTemplates Testimonial =
     ''A genuine user testimonial video featuring {product}, ''
     @ ''speaking directly to camera, home environment, honest reaction, ''
     @ ''personal story, authentic emotion, trustworthy delivery''"
| "ugcPromptTemplates Tutorial =
     ''A step-by-step tutorial video demonstrating {product}, ''
     @ ''clear close-ups, user'' @ [CHR 0x27] @ ''s hands visible, helpful annotations, ''
     @ ''easy to follow, instructional tone, practical tips''"
| "ugcPromptTemplates Unboxing =
     ''An unboxing video of {product}, ''
     @ ''excited user reaction, natural lighting, first impressions, ''
     @ ''product packaging, anticipation, discovery moment''"
| "ugcPromptTemplates Lifestyle =
     ''A lifestyle video featuring {product} in daily routine, ''
     @ ''aesthetic but authentic, natural movements, relatable scenarios, ''
     @ ''seamless integration, aspirational yet achievable''"
| "ugcPromptTemplates Comparison =
     ''A before-and-after comparison video showcasing {product} impact, ''
     @ ''side-by-side views, clear results, user satisfaction, ''
     @ ''measurable difference, transformation story''"

text \<open>
  \<open>subject.replace(pattern, replacement)\<close> with a string pattern: the first occurrence
  is replaced. The replacement is taken literally, which is what JavaScript does for a
  replacement without \<open>$\<close>.
\<close>

fun replaceFirst :: "string \<Rightarrow> string \<Rightarrow> string \<Rightarrow> string" where
  "replaceFirst pattern replacement [] = (if pattern = [] then replacement else [])"
| "replaceFirst pattern replacement (c # cs) =
     (if take (length pattern) (c # cs) = pattern
      then replacement @ drop (length pattern) (c # cs)
      else c # replaceFirst pattern replacement cs)"

text \<open>\<open>parts.join(separator)\<close>.\<close>

fun joinWith :: "string \<Rightarrow> string list \<Rightarrow> string" where
  "joinWith separator [] = []"
| "joinWith separator [p] = p"
| "joinWith separator (p # q # ps) = p @ separator @ joinWith separator (q # ps)"

definition buildPrompt :: "UGCStyle \<Rightarrow> string \<Rightarrow> string list option \<Rightarrow> string" where
  "buildPrompt style productDescription additional =
     (let template = ugcPromptTemplates style;
          prompt = replaceFirst ''{product}'' productDescription template
      in case additional of
           None \<Rightarrow> prompt
         | Some ps \<Rightarrow> if 0 < length ps then prompt @ ''. '' @ joinWith ''. '' ps else prompt)"

datatype Tone = Energetic | Calm | Friendly | Professional

datatype Pacing = Short | Medium | Long

fun toneVariations :: "Tone \<Rightarrow> string" where
  "toneVariations Energetic = ''energetic and enthusiastic tone''"
| "toneVariations Calm = ''calm and relaxed atmosphere''"
| "toneVariations Friendly = ''warm and friendly delivery''"
| "toneVariations Professional = ''polished yet approachable style''"

fun framingAdjustments :: "AspectRatio \<Rightarrow> string" where
  "framingAdjustments AR_16_9 = ''wide landscape framing, cinematic composition''"
| "framingAdjustments AR_9_16 = ''vertical portrait framing, mobile-first composition''"
| "framingAdjustments AR_1_1 = ''square framing, balanced composition''"
| "framingAdjustments AR_4_5 = ''vertical framing, Instagram-optimized composition''"

fun pacingAdjustments :: "Pacing \<Rightarrow> string" where
  "pacingAdjustments Short = ''quick cuts, fast-paced, attention-grabbing''"
| "pacingAdjustments Medium = ''moderate pacing, well-balanced rhythm''"
| "pacingAdjustments Long = ''slower pacing, detailed exploration, thorough demonstration''"

text \<open>The \<open>options\<close> argument of \<open>buildVariedPrompt\<close>; an absent key is \<open>None\<close>.\<close>

record PromptOptions =
  opt_tone :: "Tone option"
  opt_framing :: "AspectRatio option"
  opt_pacing :: "Pacing option"
  opt_additionalPrompts :: "string list option"

definition buildVariedPrompt :: "UGCStyle \<Rightarrow> string \<Rightarrow> PromptOptions \<Rightarrow> string" where
  "buildVariedPrompt style productDescription options =
     (let prompt = buildPrompt style productDescription (opt_additionalPrompts options);
          prompt = (case opt_tone options of
                      None \<Rightarrow> prompt | Some tone \<Rightarrow> prompt @ ''. '' @ toneVariations tone);
          prompt = (case opt_framing options of
                      None \<Rightarrow> prompt | Some framing \<Rightarrow> prompt @ ''. '' @ framingAdjustments framing);
          prompt = (case opt_pacing options of
                      None \<Rightarrow> prompt | Some pacing \<Rightarrow> prompt @ ''. '' @ pacingAdjustments pacing)
      in prompt)"

section \<open>api/sora2-client.ts\<close>

text \<open>\<open>Sora2GenerationResponse\<close> of types.ts; an optional field is an \<open>option\<close>.\<close>

datatype JobStatus = Queued | Processing | Completed | Failed

record Sora2GenerationResponse =
  res_jobId :: string
  res_status :: JobStatus
  res_videoUrl :: "string option"
  res_thumbnailUrl :: "string option"
  res_error :: "string option"
  res_progress :: "real option"

text \<open>The constant table \<open>RATE_LIMIT\<close>, in requests and milliseconds.\<close>

definition RATE_LIMIT_requestsPerMinute :: nat where
  "RATE_LIMIT_requestsPerMinute = 3"

definition RATE_LIMIT_pollingInterval :: nat where
  "RATE_LIMIT_pollingInterval = 10000"

definition RATE_LIMIT_generationTimeout :: nat where
  "RATE_LIMIT_generationTimeout = 300000"

text \<open>
  The answer of the remote service to one status request: the \<open>fetch\<close> or the parsing
  of its body rejects, the HTTP status is not ok (with its status text), or the body is
  the JSON object that \<open>getJobStatus\<close> reads.
\<close>

record StatusData =
  data_status :: JobStatus
  data_video_url :: "string option"
  data_thumbnail_url :: "string option"
  data_error :: "string option"
  data_progress :: "real option"

datatype StatusReply = Rejected thrown | NotOk string | OkJson StatusData

fun getJobStatus :: "string \<Rightarrow> StatusReply \<Rightarrow> thrown + Sora2GenerationResponse" where
  "getJobStatus jobId (Rejected e) = Inl e"
| "getJobStatus jobId (NotOk statusText) = Inl (newError (''Failed to get job status: '' @ statusText))"
| "getJobStatus jobId (OkJson d) =
     Inr \<lparr> res_jobId = jobId, res_status = data_status d, res_videoUrl = data_video_url d,
           res_thumbnailUrl = data_thumbnail_url d, res_error = data_error d,
           res_progress = data_progress d \<rparr>"

text \<open>
  What the poller meets while it follows one job: the answer to its \<open>k\<close>-th status
  request, the milliseconds that request takes, and the milliseconds by which the sleep
  after it lasts longer than asked. The clock \<open>Date.now()\<close> is a \<open>nat\<close> of
  milliseconds; \<open>sleep(ms)\<close> lasts at least \<open>ms\<close>.
\<close>

record PollWorld =
  statusReply :: "nat \<Rightarrow> StatusReply"
  statusLatency :: "nat \<Rightarrow> nat"
  sleepOvershoot :: "nat \<Rightarrow> nat"

text \<open>\<open>s || d\<close> on an optional string: \<open>undefined\<close> and the empty string give \<open>d\<close>.\<close>

fun orElse :: "string option \<Rightarrow> string \<Rightarrow> string" where
  "orElse None d = d"
| "orElse (Some s) d = (if s = [] then d else s)"

definition unknownErrorText :: string where
  "unknownErrorText = [CHR 0xE4, CHR 0xB8, CHR 0x8D, CHR 0xE6, CHR 0x98, CHR 0x8E, CHR 0xE3, CHR 0x81, CHR 0xAA, CHR 0xE3, CHR 0x82, CHR 0xA8, CHR 0xE3, CHR 0x83, CHR 0xA9, CHR 0xE3, CHR 0x83, CHR 0xBC]"

definition timeoutMessage :: "string \<Rightarrow> string" where
  "timeoutMessage jobId =
     ''APITimeout: '' @ [CHR 0xE3, CHR 0x82, CHR 0xB8, CHR 0xE3, CHR 0x83, CHR 0xA7, CHR 0xE3, CHR 0x83, CHR 0x96] @ '' ''
     @ jobId
     @ '' '' @ [CHR 0xE3, CHR 0x81, CHR 0x8C, CHR 0xE3, CHR 0x82, CHR 0xBF, CHR 0xE3, CHR 0x82, CHR 0xA4, CHR 0xE3, CHR 0x83, CHR 0xA0, CHR 0xE3, CHR 0x82, CHR 0xA2, CHR 0xE3, CHR 0x82, CHR 0xA6, CHR 0xE3, CHR 0x83, CHR 0x88, CHR 0xE3, CHR 0x81, CHR 0x97, CHR 0xE3, CHR 0x81, CHR 0xBE, CHR 0xE3, CHR 0x81, CHR 0x97, CHR 0xE3, CHR 0x81, CHR 0x9F]"

definition generationFailedMessage :: "string option \<Rightarrow> string" where
  "generationFailedMessage err = ''GenerationFailed: '' @ orElse err unknownErrorText"

text \<open>
  The \<open>while (true)\<close> loop of \<open>pollJobStatus\<close> in round \<open>k\<close>, entered at clock reading
  \<open>now\<close>. It ends because each further round starts at least one polling interval later.
\<close>

function pollLoop ::
  "PollWorld \<Rightarrow> string \<Rightarrow> nat \<Rightarrow> nat \<Rightarrow> nat \<Rightarrow> real
     \<Rightarrow> (thrown + Sora2GenerationResponse) \<times> Effect list" where
  "pollLoop world jobId startTime k now progress =
     (let elapsed = int now - int startTime
      in if int RATE_LIMIT_generationTimeout < elapsed
         then (Inl (newError (timeoutMessage jobId)), [])
         else (case getJobStatus jobId (statusReply world k) of
                 Inl e \<Rightarrow> (Inl e, [Queried k])
               | Inr status \<Rightarrow>
                   let progress' = (case res_progress status of
                                      None \<Rightarrow> progress
                                    | Some p \<Rightarrow> if progress < p then p else progress)
                   in if res_status status = Completed then (Inr status, [Queried k])
                      else if res_status status = Failed
                      then (Inl (newError (generationFailedMessage (res_error status))), [Queried k])
                      else (case pollLoop world jobId startTime (Suc k)
                                   (now + statusLatency world k + RATE_LIMIT_pollingInterval
                                      + sleepOvershoot world k) progress' of
                              (r, events) \<Rightarrow>
                                (r, Queried k # Slept (real RATE_LIMIT_pollingInterval) # events))))"
  by pat_completeness auto
termination
  by (relation "measure (\<lambda>(world, jobId, startTime, k, now, progress).
        nat (int RATE_LIMIT_generationTimeout + 1 - (int now - int startTime)))")
     (auto simp: RATE_LIMIT_pollingInterval_def)

declare pollLoop.simps [simp del]

definition pollJobStatus ::
  "PollWorld \<Rightarrow> string \<Rightarrow> nat \<Rightarrow> (thrown + Sora2GenerationResponse) \<times> Effect list" where
  "pollJobStatus world jobId startTime = pollLoop world jobId startTime 0 startTime 0"

text \<open>The loop variables of the next round.\<close>

definition nextProgress :: "real \<Rightarrow> Sora2GenerationResponse \<Rightarrow> real" where
  "nextProgress progress s =
     (case res_progress s of None \<Rightarrow> progress | Some p \<Rightarrow> if progress < p then p else progress)"

definition nextPoll :: "PollWorld \<Rightarrow> nat \<Rightarrow> nat \<Rightarrow> nat" where
  "nextPoll world k now = now + statusLatency world k + RATE_LIMIT_pollingInterval + sleepOvershoot world k"



text \<open>
  \<open>waitForRateLimit\<close> runs in two uninterrupted parts, split at its \<open>await sleep\<close>.
  \<open>rateLimitEnter\<close> is the part up to the \<open>await\<close>: it reads the clock, filters the
  window and either appends \<open>now\<close> at once (no wait: \<open>None\<close>) or asks for a sleep of
  \<open>waitTime\<close> milliseconds. \<open>rateLimitResume\<close> is the part after the sleep: the
  \<open>push(now)\<close> with the clock reading taken before the sleep.
\<close>

definition rateLimitEnter :: "nat \<Rightarrow> nat list \<Rightarrow> nat list \<times> int option" where
  "rateLimitEnter now requestTimestamps =
     (let oneMinuteAgo = int now - 60000;
          kept = filter (\<lambda>timestamp. oneMinuteAgo < int timestamp) requestTimestamps
      in if RATE_LIMIT_requestsPerMinute \<le> length kept
         then (case kept of
                 [] \<Rightarrow> (kept @ [now], None) \<comment> \<open>\<open>undefined\<close> gives \<open>NaN\<close>, and \<open>NaN > 0\<close> is false\<close>
               | oldestRequest # _ \<Rightarrow>
                   (let waitTime = 60000 - (int now - int oldestRequest)
                    in if 0 < waitTime then (kept, Some waitTime) else (kept @ [now], None)))
         else (kept @ [now], None))"

definition rateLimitResume :: "nat \<Rightarrow> nat list \<Rightarrow> nat list" where
  "rateLimitResume now requestTimestamps = requestTimestamps @ [now]"

text \<open>
  One call awaited on its own: the window afterwards and the time slept, if any.
\<close>

definition waitForRateLimit :: "nat \<Rightarrow> nat list \<Rightarrow> nat list \<times> int option" where
  "waitForRateLimit now requestTimestamps =
     (case rateLimitEnter now requestTimestamps of
        (kept, None) \<Rightarrow> (kept, None)
      | (kept, Some waitTime) \<Rightarrow> (rateLimitResume now kept, Some waitTime))"

text \<open>
  A sequence of calls, each awaited before the next starts. A call is given by the time
  that passes between the return of the previous call and its own start, and by the time
  its sleep lasts beyond the requested one. The run yields the window at the end and, per
  call, the clock reading at which it returned, which is when the submission goes out.
\<close>

fun acquireRun :: "nat \<Rightarrow> (nat \<times> nat) list \<Rightarrow> nat list \<Rightarrow> nat list \<times> nat list" where
  "acquireRun clock [] requestTimestamps = (requestTimestamps, [])"
| "acquireRun clock ((gap, overshoot) # calls) requestTimestamps =
     (let now = clock + gap
      in case waitForRateLimit now requestTimestamps of
           (window, None) \<Rightarrow>
             (case acquireRun now calls window of
                (final, returns) \<Rightarrow> (final, now # returns))
         | (window, Some waitTime) \<Rightarrow>
             (let returned = now + nat waitTime + overshoot
              in case acquireRun returned calls window of
                   (final, returns) \<Rightarrow> (final, returned # returns)))"

text \<open>The entries of a list of clock readings within the 60000 ms that end at \<open>t\<close>.\<close>

definition withinWindow :: "nat \<Rightarrow> nat list \<Rightarrow> nat list" where
  "withinWindow t stamps = filter (\<lambda>s. int t - 60000 < int s \<and> s \<le> t) stamps"

text \<open>
  \<open>Sora2GenerationRequest\<close> of types.ts. The aspect ratio is \<open>None\<close> when the plan
  holds \<open>undefined\<close> for it.
\<close>

record Sora2GenerationRequest =
  req_prompt :: string
  req_duration :: real
  req_aspectRatio :: "AspectRatio option"
  req_resolution :: resolution
  req_fps :: nat
  req_sourceVideoUrl :: "string option"

text \<open>
  The answer of the remote service to one submission: the \<open>fetch\<close> or the parsing of
  its body rejects, the HTTP status is not ok (with the status code and the text
  \<open>JSON.stringify(error)\<close> of its body), or the body is a JSON object with the optional
  keys \<open>id\<close> and \<open>job_id\<close>.
\<close>

datatype SubmitReply =
    SubmitRejected thrown
  | SubmitNotOk nat string
  | SubmitOk "string option" "string option"

text \<open>The operation that \<open>generateVideo\<close> hands to \<open>withRetry\<close>, on one such answer.\<close>

fun submitOnce :: "SubmitReply \<Rightarrow> thrown + (string option \<times> string option)" where
  "submitOnce (SubmitRejected e) = Inl e"
| "submitOnce (SubmitNotOk status body) =
     (if status = 429 then Inl (newError ''RateLimitExceeded'')
      else if status = 408 \<or> status = 504 then Inl (newError ''APITimeout'')
      else Inl (newError (''Sora2 API Error: '' @ body)))"
| "submitOnce (SubmitOk ident job_id) = Inr (ident, job_id)"

text \<open>
  What one call of \<open>generate(request)\<close> of the client meets: the answer to each
  submission attempt, the poller's world, the clock reading at which polling starts, and
  the clock reading at which the promise of the call settles.
\<close>

record ItemWorld =
  submitReply :: "nat \<Rightarrow> SubmitReply"
  pollWorld :: PollWorld
  pollStart :: nat
  settledAt :: nat

text \<open>A string that JavaScript takes for true: defined and not empty.\<close>

fun truthy :: "string option \<Rightarrow> string option" where
  "truthy None = None"
| "truthy (Some s) = (if s = [] then None else Some s)"

definition noJobIdText :: string where
  "noJobIdText = ''Sora2 API: '' @ [CHR 0xE3, CHR 0x82, CHR 0xB8, CHR 0xE3, CHR 0x83, CHR 0xA7, CHR 0xE3, CHR 0x83, CHR 0x96] @ ''ID'' @ [CHR 0xE3, CHR 0x81, CHR 0x8C, CHR 0xE5, CHR 0x8F, CHR 0x96, CHR 0xE5, CHR 0xBE, CHR 0x97, CHR 0xE3, CHR 0x81, CHR 0xA7, CHR 0xE3, CHR 0x81, CHR 0x8D, CHR 0xE3, CHR 0x81, CHR 0xBE, CHR 0xE3, CHR 0x81, CHR 0x9B, CHR 0xE3, CHR 0x82, CHR 0x93, CHR 0xE3, CHR 0x81, CHR 0xA7, CHR 0xE3, CHR 0x81, CHR 0x97, CHR 0xE3, CHR 0x81, CHR 0x9F]"

text \<open>
  \<open>generateVideo\<close> from its submission on. The \<open>await this.waitForRateLimit()\<close> before
  it only delays the call: the answers of the remote service are those of the world, and
  the poller measures time from its own start. The window of the limiter is the subject
  of \<open>waitForRateLimit\<close> above.
\<close>

definition generateVideo :: "RetryConfig \<Rightarrow> ItemWorld \<Rightarrow> Sora2GenerationRequest \<Rightarrow> thrown + string" where
  "generateVideo retryConfig world request =
     (case fst (withRetry (\<lambda>k. submitOnce (submitReply world k)) retryConfig ''Sora2 API generateVideo'') of
        Inl e \<Rightarrow> Inl e
      | Inr (ident, job_id) \<Rightarrow>
          (case (case truthy ident of Some j \<Rightarrow> Some j | None \<Rightarrow> truthy job_id) of
             None \<Rightarrow> Inl (newError noJobIdText)
           | Some jobId \<Rightarrow> Inr jobId))"

text \<open>\<open>Sora2APIClient.generate\<close>: submit, then poll.\<close>

definition Sora2APIClient_generate ::
  "RetryConfig \<Rightarrow> ItemWorld \<Rightarrow> Sora2GenerationRequest \<Rightarrow> thrown + Sora2GenerationResponse" where
  "Sora2APIClient_generate retryConfig world request =
     (case generateVideo retryConfig world request of
        Inl e \<Rightarrow> Inl e
      | Inr jobId \<Rightarrow> fst (pollJobStatus (pollWorld world) jobId (pollStart world)))"

text \<open>
  \<open>Promise.all\<close> over promises that have settled, each with the clock reading at which
  it did: the values in order when all are fulfilled, otherwise the reason of the
  rejection that came first (the earlier promise when two came together).
\<close>

fun firstRejection :: "(nat \<times> (thrown + 'a)) list \<Rightarrow> (nat \<times> thrown) option" where
  "firstRejection [] = None"
| "firstRejection ((t, Inr v) # rest) = firstRejection rest"
| "firstRejection ((t, Inl e) # rest) =
     (case firstRejection rest of
        None \<Rightarrow> Some (t, e)
      | Some (t', e') \<Rightarrow> if t' < t then Some (t', e') else Some (t, e))"

fun fulfilled :: "(nat \<times> (thrown + 'a)) list \<Rightarrow> 'a list" where
  "fulfilled [] = []"
| "fulfilled ((t, Inr v) # rest) = v # fulfilled rest"
| "fulfilled ((t, Inl e) # rest) = fulfilled rest"

definition promiseAll :: "(nat \<times> (thrown + 'a)) list \<Rightarrow> thrown + 'a list" where
  "promiseAll settled =
     (case firstRejection settled of
        Some (t, e) \<Rightarrow> Inl e
      | None \<Rightarrow> Inr (fulfilled settled))"

text \<open>
  The first loop of \<open>generateBatch\<close>: slices of \<open>concurrency\<close> requests. With
  \<open>concurrency = 0\<close> the loop of the source never ends on a non-empty list; that case is
  \<open>None\<close> in \<open>generateBatch\<close> below and not a case of \<open>splitBatches\<close>.
\<close>

function splitBatches :: "nat \<Rightarrow> 'a list \<Rightarrow> 'a list list" where
  "splitBatches concurrency requests =
     (if requests = [] \<or> concurrency = 0 then []
      else take concurrency requests # splitBatches concurrency (drop concurrency requests))"
  by pat_completeness auto
termination
  by (relation "measure (\<lambda>(concurrency, requests). length requests)") auto

declare splitBatches.simps [simp del]

text \<open>The second loop: one \<open>Promise.all\<close> per batch, in order; a rejection ends the call.\<close>

fun runBatches :: "(nat \<times> (thrown + 'a)) list list \<Rightarrow> 'a list \<Rightarrow> thrown + 'a list" where
  "runBatches [] results = Inr results"
| "runBatches (batch # batches) results =
     (case promiseAll batch of
        Inl e \<Rightarrow> Inl e
      | Inr batchResults \<Rightarrow> runBatches batches (results @ batchResults))"

text \<open>
  \<open>generateBatch\<close>; \<open>worlds i\<close> is the world of the \<open>i\<close>-th request. \<open>None\<close>: the call
  never returns.
\<close>

definition Sora2APIClient_generateBatch ::
  "RetryConfig \<Rightarrow> (nat \<Rightarrow> ItemWorld) \<Rightarrow> Sora2GenerationRequest list \<Rightarrow> nat
     \<Rightarrow> (thrown + Sora2GenerationResponse list) option" where
  "Sora2APIClient_generateBatch retryConfig worlds requests concurrency =
     (if concurrency = 0 \<and> requests \<noteq> [] then None
      else Some (runBatches
             (splitBatches concurrency
                (map (\<lambda>(i, request).
                        (settledAt (worlds i), Sora2APIClient_generate retryConfig (worlds i) request))
                     (enumerate 0 requests)))
             []))"

section \<open>core/UGCAdGenerator.ts\<close>

text \<open>
  The records of types.ts that \<open>generate\<close> reads and builds. \<open>numberOfAds\<close> is a count
  (1 to 10 by its comment), a \<open>nat\<close>.
\<close>

record UGCAdGenerationRequest =
  sourceVideo :: string
  numberOfAds :: nat
  targetAspectRatio :: "AspectRatio list"
  ugcStyle :: "UGCStyle list option"
  duration :: "real option"
  additionalPrompts :: "string list option"

record UGCAdGeneratorConfig =
  cfg_apiKey :: string
  cfg_outputDir :: string
  cfg_retryConfig :: "RetryConfig option"
  cfg_defaultResolution :: "resolution option"
  cfg_defaultFps :: "nat option"

record VideoMetadata =
  md_filename :: string
  md_resolution :: resolution
  md_fileSize :: nat
  md_ugcAuthenticityScore :: real
  md_adEffectivenessScore :: real
  md_generationTime :: nat
  md_cost :: real

record GeneratedAd =
  ad_id :: string
  ad_videoUrl :: string
  ad_thumbnailUrl :: string
  ad_duration :: real
  ad_aspectRatio :: AspectRatio
  ad_ugcStyle :: UGCStyle
  ad_prompt :: string
  ad_metadata :: VideoMetadata
  ad_qualityScore :: real

record FailedAd =
  failed_id :: string
  failed_error :: string
  failed_errorCode :: string
  failed_prompt :: string

record UGCAdGenerationResult =
  generatedAds :: "GeneratedAd list"
  failedAds :: "FailedAd list"
  totalDuration :: real
  result_totalCost :: real

text \<open>The fields of the results of the validator, the policy checker and the scorer that \<open>generate\<close> reads.\<close>

record VideoValidationResult =
  isValid :: bool
  errors :: "string list"

record ContentPolicyCheckResult =
  isCompliant :: bool
  details :: "string list"

record QualityScore =
  overall :: real
  videoQuality :: real
  ugcAuthenticity :: real
  adEffectiveness :: real

text \<open>One entry of the generation plan; the aspect ratio is \<open>None\<close> for \<open>undefined\<close>.\<close>

record GenerationPlan =
  plan_ugcStyle :: UGCStyle
  plan_aspectRatio :: "AspectRatio option"
  plan_prompt :: string

text \<open>
  \<open>xs[i % xs.length]\<close>: on an empty array the index is \<open>NaN\<close> and the element
  \<open>undefined\<close>.
\<close>

definition roundRobin :: "'a list \<Rightarrow> nat \<Rightarrow> 'a option" where
  "roundRobin xs i = (if xs = [] then None else Some (xs ! (i mod length xs)))"

text \<open>
  The \<open>TypeError\<close> of reading \<open>replace\<close> off \<open>undefined\<close>, with the message of V8.
\<close>

definition replaceOfUndefined :: thrown where
  "replaceOfUndefined =
     JsError ''TypeError''
       (''Cannot read properties of undefined (reading '' @ [CHR 0x27] @ ''replace'' @ [CHR 0x27] @ '')'')"

definition defaultStyles :: "UGCStyle list" where
  "defaultStyles = [Casual, Testimonial, Tutorial, Unboxing, Lifestyle, Comparison]"

text \<open>
  The \<open>for\<close> loop of \<open>createGenerationPlan\<close> from ordinal \<open>i\<close> on. An \<open>undefined\<close>
  style makes \<open>buildPrompt\<close> throw on its template; an \<open>undefined\<close> aspect ratio is kept
  in the plan and leaves the framing out of the prompt.
\<close>

function planLoop ::
  "UGCAdGenerationRequest \<Rightarrow> UGCStyle list \<Rightarrow> nat \<Rightarrow> GenerationPlan list
     \<Rightarrow> thrown + GenerationPlan list" where
  "planLoop request allStyles i plan =
     (if i < numberOfAds request then
        (case roundRobin allStyles i of
           None \<Rightarrow> Inl replaceOfUndefined
         | Some style \<Rightarrow>
             (let aspectRatio = roundRobin (targetAspectRatio request) i;
                  prompt = buildVariedPrompt style ''product''
                    \<lparr> opt_tone = Some (if i mod 2 = 0 then Energetic else Friendly),
                      opt_framing = aspectRatio,
                      opt_pacing = Some (if real i < real (numberOfAds request) / 2 then Medium else Short),
                      opt_additionalPrompts = additionalPrompts request \<rparr>
              in planLoop request allStyles (Suc i)
                   (plan @ [\<lparr> plan_ugcStyle = style, plan_aspectRatio = aspectRatio,
                              plan_prompt = prompt \<rparr>])))
      else Inr plan)"
  by pat_completeness auto
termination
  by (relation "measure (\<lambda>(request, allStyles, i, plan). numberOfAds request - i)") auto

declare planLoop.simps [simp del]

text \<open>\<open>request.ugcStyle || [...]\<close>: an array, empty or not, is taken as it is.\<close>

definition allStylesOf :: "UGCAdGenerationRequest \<Rightarrow> UGCStyle list" where
  "allStylesOf request = (case ugcStyle request of None \<Rightarrow> defaultStyles | Some styles \<Rightarrow> styles)"

definition createGenerationPlan :: "UGCAdGenerationRequest \<Rightarrow> thrown + GenerationPlan list" where
  "createGenerationPlan request =
     (let allStyles = allStylesOf request
      in planLoop request allStyles 0 [])"

text \<open>The plan entry of ordinal \<open>i\<close>, as the round-robin rule gives it.\<close>

definition planAt :: "UGCAdGenerationRequest \<Rightarrow> nat \<Rightarrow> GenerationPlan" where
  "planAt request i =
     \<lparr> plan_ugcStyle = allStylesOf request ! (i mod length (allStylesOf request)),
       plan_aspectRatio = Some (targetAspectRatio request ! (i mod length (targetAspectRatio request))),
       plan_prompt =
         buildVariedPrompt (allStylesOf request ! (i mod length (allStylesOf request))) ''product''
           \<lparr> opt_tone = Some (if even i then Energetic else Friendly),
             opt_framing = Some (targetAspectRatio request ! (i mod length (targetAspectRatio request))),
             opt_pacing = Some (if real i < real (numberOfAds request) / 2 then Medium else Short),
             opt_additionalPrompts = additionalPrompts request \<rparr> \<rparr>"

text \<open>
  What one call of \<open>generate\<close> meets: the clock at its start and at its end, the results of
  the validator and of the policy checker on the source video, the world of each item,
  the score the scorer gives the video of each item, the clock reading of each cost
  entry, and the text a template literal prints for a number.
\<close>

record GenerateWorld =
  startedAt :: nat
  finishedAt :: nat
  validationResult :: VideoValidationResult
  policyCheckResult :: ContentPolicyCheckResult
  itemWorld :: "nat \<Rightarrow> ItemWorld"
  scoreOf :: "nat \<Rightarrow> QualityScore"
  recordedAt :: "nat \<Rightarrow> nat"
  numberText :: "real \<Rightarrow> string"

text \<open>The instance: its configuration and its cost tracker.\<close>

record UGCAdGenerator =
  gen_config :: UGCAdGeneratorConfig
  gen_costTracker :: CostTracker

definition newUGCAdGenerator :: "UGCAdGeneratorConfig \<Rightarrow> UGCAdGenerator" where
  "newUGCAdGenerator cfg = \<lparr> gen_config = cfg, gen_costTracker = newCostTracker SORA2_PRICING_monthlyBudget \<rparr>"

text \<open>\<open>request.duration || 10\<close> and the two defaults of the configuration.\<close>

definition durationOr10 :: "UGCAdGenerationRequest \<Rightarrow> real" where
  "durationOr10 request = (case duration request of None \<Rightarrow> 10 | Some d \<Rightarrow> if d = 0 then 10 else d)"

definition resolutionOrDefault :: "UGCAdGeneratorConfig \<Rightarrow> resolution" where
  "resolutionOrDefault cfg = (case cfg_defaultResolution cfg of None \<Rightarrow> R1080p | Some r \<Rightarrow> r)"

definition fpsOrDefault :: "UGCAdGeneratorConfig \<Rightarrow> nat" where
  "fpsOrDefault cfg = (case cfg_defaultFps cfg of None \<Rightarrow> 30 | Some f \<Rightarrow> if f = 0 then 30 else f)"

definition retryConfigOrDefault :: "UGCAdGeneratorConfig \<Rightarrow> RetryConfig" where
  "retryConfigOrDefault cfg = (case cfg_retryConfig cfg of None \<Rightarrow> defaultRetryConfig | Some c \<Rightarrow> c)"

text \<open>The request that step 4 builds for a plan.\<close>

definition planRequest ::
  "UGCAdGeneratorConfig \<Rightarrow> UGCAdGenerationRequest \<Rightarrow> GenerationPlan \<Rightarrow> Sora2GenerationRequest" where
  "planRequest cfg request plan =
     \<lparr> req_prompt = plan_prompt plan, req_duration = durationOr10 request,
       req_aspectRatio = plan_aspectRatio plan, req_resolution = resolutionOrDefault cfg,
       req_fps = fpsOrDefault cfg, req_sourceVideoUrl = None \<rparr>"

text \<open>\<open>`ad-${String(index + 1).padStart(3, '0')}`\<close>.\<close>

definition padStart3 :: "string \<Rightarrow> string" where
  "padStart3 s = replicate (3 - length s) (CHR ''0'') @ s"

definition adId :: "nat \<Rightarrow> string" where
  "adId index = ''ad-'' @ padStart3 (showNat (index + 1))"

fun resolutionText :: "resolution \<Rightarrow> string" where
  "resolutionText R720p = ''720p''"
| "resolutionText R1080p = ''1080p''"

definition generationFailedText :: string where
  "generationFailedText = [CHR 0xE7, CHR 0x94, CHR 0x9F, CHR 0xE6, CHR 0x88, CHR 0x90, CHR 0xE5, CHR 0xA4, CHR 0xB1, CHR 0xE6, CHR 0x95, CHR 0x97]"

definition qualityTooLowMessage :: "string \<Rightarrow> string" where
  "qualityTooLowMessage score =
     [CHR 0xE5, CHR 0x93, CHR 0x81, CHR 0xE8, CHR 0xB3, CHR 0xAA, CHR 0xE3, CHR 0x82, CHR 0xB9, CHR 0xE3, CHR 0x82, CHR 0xB3, CHR 0xE3, CHR 0x82, CHR 0xA2, CHR 0xE4, CHR 0xB8, CHR 0x8D, CHR 0xE8, CHR 0xB6, CHR 0xB3] @ '': ''
     @ score
     @ [CHR 0xE7, CHR 0x82, CHR 0xB9] @ '' ('' @ [CHR 0xE6, CHR 0x9C, CHR 0x80, CHR 0xE4, CHR 0xBD, CHR 0x8E] @ ''70'' @ [CHR 0xE7, CHR 0x82, CHR 0xB9, CHR 0xE5, CHR 0xBF, CHR 0x85, CHR 0xE8, CHR 0xA6, CHR 0x81] @ '')''"

definition validationFailedText :: string where
  "validationFailedText = [CHR 0xE5, CHR 0x85, CHR 0xA5, CHR 0xE5, CHR 0x8A, CHR 0x9B, CHR 0xE6, CHR 0xA4, CHR 0x9C, CHR 0xE8, CHR 0xA8, CHR 0xBC, CHR 0xE5, CHR 0xA4, CHR 0xB1, CHR 0xE6, CHR 0x95, CHR 0x97] @ '': ''"

definition policyViolationText :: string where
  "policyViolationText = [CHR 0xE3, CHR 0x82, CHR 0xB3, CHR 0xE3, CHR 0x83, CHR 0xB3, CHR 0xE3, CHR 0x83, CHR 0x86, CHR 0xE3, CHR 0x83, CHR 0xB3, CHR 0xE3, CHR 0x83, CHR 0x84, CHR 0xE3, CHR 0x83, CHR 0x9D, CHR 0xE3, CHR 0x83, CHR 0xAA, CHR 0xE3, CHR 0x82, CHR 0xB7, CHR 0xE3, CHR 0x83, CHR 0xBC, CHR 0xE9, CHR 0x81, CHR 0x95, CHR 0xE5, CHR 0x8F, CHR 0x8D] @ '': ''"

text \<open>The object that step 5 pushes to \<open>generatedAds\<close>.\<close>

definition generatedAdOf ::
  "UGCAdGeneratorConfig \<Rightarrow> UGCAdGenerationRequest \<Rightarrow> nat \<Rightarrow> GenerationPlan
     \<Rightarrow> Sora2GenerationResponse \<Rightarrow> string \<Rightarrow> AspectRatio \<Rightarrow> QualityScore \<Rightarrow> real \<Rightarrow> GeneratedAd" where
  "generatedAdOf cfg request index plan response videoUrl aspectRatio qualityScore cost =
     \<lparr> ad_id = adId index,
       ad_videoUrl = videoUrl,
       ad_thumbnailUrl = orElse (res_thumbnailUrl response) [],
       ad_duration = durationOr10 request,
       ad_aspectRatio = aspectRatio,
       ad_ugcStyle = plan_ugcStyle plan,
       ad_prompt = plan_prompt plan,
       ad_metadata =
         \<lparr> md_filename = adId index @ ''-'' @ ugcStyleText (plan_ugcStyle plan)
               @ ''-'' @ replaceFirst '':'' ''x'' (aspectRatioText aspectRatio) @ ''.mp4'',
           md_resolution = resolutionOrDefault cfg,
           md_fileSize = 12000000,
           md_ugcAuthenticityScore = ugcAuthenticity qualityScore,
           md_adEffectivenessScore = adEffectiveness qualityScore,
           md_generationTime = 90,
           md_cost = cost \<rparr>,
       ad_qualityScore = overall qualityScore \<rparr>"

text \<open>
  The body of the loop of step 5 for one response: the lists of generated and failed
  ads and the cost tracker before, and after. The file name of a generated ad needs the
  aspect ratio of the plan; on \<open>undefined\<close> the body throws, after the cost was recorded.
\<close>

definition scoreItem ::
  "UGCAdGeneratorConfig \<Rightarrow> UGCAdGenerationRequest \<Rightarrow> GenerateWorld
     \<Rightarrow> nat \<Rightarrow> GenerationPlan \<Rightarrow> Sora2GenerationResponse
     \<Rightarrow> GeneratedAd list \<times> FailedAd list \<times> CostTracker
     \<Rightarrow> (thrown + GeneratedAd list \<times> FailedAd list) \<times> CostTracker" where
  "scoreItem cfg request world index plan response state =
     (case state of (generated, failed, tracker) \<Rightarrow>
        (case (if res_status response = Failed then None else truthy (res_videoUrl response)) of
           None \<Rightarrow>
             (Inr (generated,
                   failed @ [\<lparr> failed_id = adId index,
                               failed_error = orElse (res_error response) generationFailedText,
                               failed_errorCode = ''GenerationFailed'',
                               failed_prompt = plan_prompt plan \<rparr>]),
              tracker)
         | Some videoUrl \<Rightarrow>
             (let qualityScore = scoreOf world index
              in if overall qualityScore < 70
                 then (Inr (generated,
                            failed @ [\<lparr> failed_id = adId index,
                                        failed_error = qualityTooLowMessage (numberText world (overall qualityScore)),
                                        failed_errorCode = ''QualityTooLow'',
                                        failed_prompt = plan_prompt plan \<rparr>]),
                       tracker)
                 else (let cost = calculateVideoCost (durationOr10 request) (resolutionOrDefault cfg);
                           tracker' = fst (recordCost (recordedAt world index) cost
                                             (''Ad '' @ showNat (index + 1) @ '' generated'') tracker)
                       in case plan_aspectRatio plan of
                            None \<Rightarrow> (Inl replaceOfUndefined, tracker')
                          | Some aspectRatio \<Rightarrow>
                              (Inr (generated @
                                      [generatedAdOf cfg request index plan response videoUrl
                                         aspectRatio qualityScore cost],
                                    failed),
                               tracker')))))"

text \<open>
  The loop of step 5 over \<open>sora2Responses.entries()\<close>, from index \<open>index\<close> on. The plan of
  an index is read off the plan list alongside; the two lists have the same length when
  the batch returned.
\<close>

fun scoreLoop ::
  "UGCAdGeneratorConfig \<Rightarrow> UGCAdGenerationRequest \<Rightarrow> GenerateWorld
     \<Rightarrow> nat \<Rightarrow> (GenerationPlan \<times> Sora2GenerationResponse) list
     \<Rightarrow> GeneratedAd list \<times> FailedAd list \<times> CostTracker
     \<Rightarrow> (thrown + GeneratedAd list \<times> FailedAd list) \<times> CostTracker" where
  "scoreLoop cfg request world index [] (generated, failed, tracker) = (Inr (generated, failed), tracker)"
| "scoreLoop cfg request world index ((plan, response) # rest) state =
     (case scoreItem cfg request world index plan response state of
        (Inl e, tracker') \<Rightarrow> (Inl e, tracker')
      | (Inr (generated', failed'), tracker') \<Rightarrow>
          scoreLoop cfg request world (Suc index) rest (generated', failed', tracker'))"

text \<open>
  \<open>UGCAdGenerator.generate\<close>: the outcome and the instance afterwards; \<open>None\<close> when the
  call never returns.
\<close>

definition UGCAdGenerator_generate ::
  "UGCAdGenerator \<Rightarrow> UGCAdGenerationRequest \<Rightarrow> GenerateWorld
     \<Rightarrow> ((thrown + UGCAdGenerationResult) \<times> UGCAdGenerator) option" where
  "UGCAdGenerator_generate gen request world =
     (if \<not> isValid (validationResult world)
      then Some (Inl (newError (validationFailedText @ joinWith '', '' (errors (validationResult world)))), gen)
      else if \<not> isCompliant (policyCheckResult world)
      then Some (Inl (newError (policyViolationText @ joinWith '', '' (details (policyCheckResult world)))), gen)
      else (case createGenerationPlan request of
              Inl e \<Rightarrow> Some (Inl e, gen)
            | Inr generationPlan \<Rightarrow>
                (case Sora2APIClient_generateBatch (retryConfigOrDefault (gen_config gen)) (itemWorld world)
                        (map (planRequest (gen_config gen) request) generationPlan) 3 of
                   None \<Rightarrow> None
                 | Some (Inl e) \<Rightarrow> Some (Inl e, gen)
                 | Some (Inr sora2Responses) \<Rightarrow>
                     (case scoreLoop (gen_config gen) request world 0 (zip generationPlan sora2Responses)
                             ([], [], gen_costTracker gen) of
                        (Inl e, tracker') \<Rightarrow> Some (Inl e, gen\<lparr> gen_costTracker := tracker' \<rparr>)
                      | (Inr (generated, failed), tracker') \<Rightarrow>
                          Some (Inr \<lparr> generatedAds = generated,
                                      failedAds = failed,
                                      totalDuration = (real (finishedAt world) - real (startedAt world)) / 1000,
                                      result_totalCost = getTotalCost tracker' \<rparr>,
                                gen\<lparr> gen_costTracker := tracker' \<rparr>)))))"

text \<open>
  Calls of \<open>generate\<close> on one instance, one after the other: the outcome of each.
\<close>

fun generateCalls ::
  "UGCAdGenerator \<Rightarrow> (UGCAdGenerationRequest \<times> GenerateWorld) list
     \<Rightarrow> (thrown + UGCAdGenerationResult) list option" where
  "generateCalls gen [] = Some []"
| "generateCalls gen ((request, world) # calls) =
     (case UGCAdGenerator_generate gen request world of
        None \<Rightarrow> None
      | Some (outcome, gen') \<Rightarrow>
          (case generateCalls gen' calls of
             None \<Rightarrow> None
           | Some outcomes \<Rightarrow> Some (outcome # outcomes)))"

text \<open>The costs of a list of generated ads.\<close>

definition adCosts :: "GeneratedAd list \<Rightarrow> real" where
  "adCosts ads = sum_list (map (\<lambda>ad. md_cost (ad_metadata ad)) ads)"

text \<open>
  What step 5 leaves behind for one numbered item \<open>(index, plan, response)\<close>, read off
  the branches of the loop body: the video of the response, if it carries one; whether
  the item passes the gate; the record pushed to \<open>failedAds\<close> for an item that does not
  pass; the cost entry and the record pushed to \<open>generatedAds\<close> for an item that does.
\<close>

definition mediaOf :: "Sora2GenerationResponse \<Rightarrow> string option" where
  "mediaOf response = (if res_status response = Failed then None else truthy (res_videoUrl response))"

definition passesGate :: "GenerateWorld \<Rightarrow> nat \<times> GenerationPlan \<times> Sora2GenerationResponse \<Rightarrow> bool" where
  "passesGate world = (\<lambda>(index, plan, response).
     mediaOf response \<noteq> None \<and> \<not> overall (scoreOf world index) < 70)"

definition failedAdFor :: "GenerateWorld \<Rightarrow> nat \<times> GenerationPlan \<times> Sora2GenerationResponse \<Rightarrow> FailedAd" where
  "failedAdFor world = (\<lambda>(index, plan, response).
     if mediaOf response = None
     then \<lparr> failed_id = adId index,
            failed_error = orElse (res_error response) generationFailedText,
            failed_errorCode = ''GenerationFailed'',
            failed_prompt = plan_prompt plan \<rparr>
     else \<lparr> failed_id = adId index,
            failed_error = qualityTooLowMessage (numberText world (overall (scoreOf world index))),
            failed_errorCode = ''QualityTooLow'',
            failed_prompt = plan_prompt plan \<rparr>)"

definition costEntryFor ::
  "UGCAdGeneratorConfig \<Rightarrow> UGCAdGenerationRequest \<Rightarrow> GenerateWorld
     \<Rightarrow> nat \<times> GenerationPlan \<times> Sora2GenerationResponse \<Rightarrow> CostEntry" where
  "costEntryFor cfg request world = (\<lambda>(index, plan, response).
     \<lparr> timestamp = recordedAt world index,
       amount = calculateVideoCost (durationOr10 request) (resolutionOrDefault cfg),
       description = ''Ad '' @ showNat (index + 1) @ '' generated'' \<rparr>)"

definition generatedAdFor ::
  "UGCAdGeneratorConfig \<Rightarrow> UGCAdGenerationRequest \<Rightarrow> GenerateWorld
     \<Rightarrow> nat \<times> GenerationPlan \<times> Sora2GenerationResponse \<Rightarrow> GeneratedAd" where
  "generatedAdFor cfg request world = (\<lambda>(index, plan, response).
     generatedAdOf cfg request index plan response (the (mediaOf response))
       (the (plan_aspectRatio plan)) (scoreOf world index)
       (calculateVideoCost (durationOr10 request) (resolutionOrDefault cfg)))"

text \<open>The entries of \<open>sora2Responses.entries()\<close> from index \<open>index\<close> on, each with its plan.\<close>

definition numbered ::
  "nat \<Rightarrow> (GenerationPlan \<times> Sora2GenerationResponse) list
     \<Rightarrow> (nat \<times> GenerationPlan \<times> Sora2GenerationResponse) list" where
  "numbered index items = zip [index ..< index + length items] items"

section \<open>Example runs\<close>

text \<open>Remote services and schedules used to exercise the theorems below.\<close>

definition inFlight :: StatusData where
  "inFlight = \<lparr> data_status = Processing, data_video_url = None, data_thumbnail_url = None,
                data_error = None, data_progress = Some 10 \<rparr>"

definition finished :: StatusData where
  "finished = \<lparr> data_status = Completed, data_video_url = Some ''https://cdn/v.mp4'',
                data_thumbnail_url = None, data_error = None, data_progress = Some 100 \<rparr>"

definition broken :: StatusData where
  "broken = \<lparr> data_status = Failed, data_video_url = None, data_thumbnail_url = None,
              data_error = Some ''moderation'', data_progress = None \<rparr>"

definition steadyWorld :: "(nat \<Rightarrow> StatusReply) \<Rightarrow> PollWorld" where
  "steadyWorld replies = \<lparr> statusReply = replies, statusLatency = (\<lambda>k. 200), sleepOvershoot = (\<lambda>k. 1) \<rparr>"

definition completingWorld :: PollWorld where
  "completingWorld = steadyWorld (\<lambda>k. OkJson (if k < 2 then inFlight else finished))"

definition failingWorld :: PollWorld where
  "failingWorld = steadyWorld (\<lambda>k. OkJson (if k < 1 then inFlight else broken))"


definition fiveAdsRequest :: UGCAdGenerationRequest where
  "fiveAdsRequest =
     \<lparr> sourceVideo = ''source.mp4'', numberOfAds = 5, targetAspectRatio = [AR_9_16, AR_16_9],
       ugcStyle = Some [Casual, Testimonial, Tutorial], duration = None, additionalPrompts = None \<rparr>"

definition plainConfig :: UGCAdGeneratorConfig where
  "plainConfig =
     \<lparr> cfg_apiKey = ''sk-test'', cfg_outputDir = ''out'', cfg_retryConfig = None,
       cfg_defaultResolution = None, cfg_defaultFps = None \<rparr>"

text \<open>An item whose job completes, and one whose job the remote service reports as failed.\<close>

definition completingItem :: ItemWorld where
  "completingItem =
     \<lparr> submitReply = (\<lambda>k. SubmitOk (Some ''job-1'') None), pollWorld = completingWorld,
       pollStart = 5000, settledAt = 26000 \<rparr>"

definition failingItem :: ItemWorld where
  "failingItem =
     \<lparr> submitReply = (\<lambda>k. SubmitOk None (Some ''job-2'')), pollWorld = failingWorld,
       pollStart = 5000, settledAt = 16000 \<rparr>"

definition scored :: "real \<Rightarrow> QualityScore" where
  "scored points = \<lparr> overall = points, videoQuality = 100, ugcAuthenticity = 80, adEffectiveness = 100 \<rparr>"

text \<open>
  A call whose source video passes both gates; item 1 is the failing one, every other
  item completes; every video scores \<open>points\<close>.
\<close>

definition gatesPassed :: "real \<Rightarrow> GenerateWorld" where
  "gatesPassed points =
     \<lparr> startedAt = 1000, finishedAt = 31000,
       validationResult = \<lparr> isValid = True, errors = [] \<rparr>,
       policyCheckResult = \<lparr> isCompliant = True, details = [] \<rparr>,
       itemWorld = (\<lambda>i. if i = 1 then failingItem else completingItem),
       scoreOf = (\<lambda>i. scored points),
       recordedAt = (\<lambda>i. 30000),
       numberText = (\<lambda>x. showInt \<lfloor>x\<rfloor>) \<rparr>"

definition adsRequest :: "nat \<Rightarrow> UGCAdGenerationRequest" where
  "adsRequest n =
     \<lparr> sourceVideo = ''source.mp4'', numberOfAds = n, targetAspectRatio = [AR_9_16],
       ugcStyle = Some [Casual], duration = None, additionalPrompts = None \<rparr>"

definition completedResponse :: Sora2GenerationResponse where
  "completedResponse =
     \<lparr> res_jobId = ''job-1'', res_status = Completed, res_videoUrl = Some ''https://cdn/v.mp4'',
       res_thumbnailUrl = None, res_error = None, res_progress = Some 100 \<rparr>"

text \<open>An instance whose tracker already holds the cost of one ad.\<close>

definition usedGenerator :: UGCAdGenerator where
  "usedGenerator =
     \<lparr> gen_config = plainConfig,
       gen_costTracker =
         \<lparr> totalCost = 10, monthlyBudget = 5000,
           costs = [\<lparr> timestamp = 30000, amount = 10, description = ''Ad 1 generated'' \<rparr>] \<rparr> \<rparr>"

text \<open>
  An operation that times out in every round, under a configuration that allows six
  retries; and one that throws the BigInt \<open>10n\<close>, which \<open>JSON.stringify\<close> refuses with a
  \<open>TypeError\<close>.
\<close>

definition alwaysTimesOut :: "nat \<Rightarrow> thrown + unit" where
  "alwaysTimesOut = (\<lambda>k. Inl (newError ''APITimeout''))"

definition sixRetries :: RetryConfig where
  "sixRetries = defaultRetryConfig \<lparr> maxRetries := 6 \<rparr>"

definition bigIntTypeError :: thrown where
  "bigIntTypeError = JsError ''TypeError'' ''Do not know how to serialize a BigInt''"

definition thrownBigInt :: thrown where
  "thrownBigInt = NonError ''10'' (Some bigIntTypeError)"

definition throwsBigInt :: "nat \<Rightarrow> thrown + unit" where
  "throwsBigInt = (\<lambda>k. Inl thrownBigInt)"

text \<open>
  A call whose source video passes both gates and whose jobs all complete; the video of
  the first item scores 69, every other video 70.
\<close>

definition gradedWorld :: GenerateWorld where
  "gradedWorld =
     \<lparr> startedAt = 1000, finishedAt = 31000,
       validationResult = \<lparr> isValid = True, errors = [] \<rparr>,
       policyCheckResult = \<lparr> isCompliant = True, details = [] \<rparr>,
       itemWorld = (\<lambda>i. completingItem),
       scoreOf = (\<lambda>i. scored (if i = 0 then 69 else 70)),
       recordedAt = (\<lambda>i. 30000),
       numberText = (\<lambda>x. showInt \<lfloor>x\<rfloor>) \<rparr>"

text \<open>A request whose list of aspect ratios is empty.\<close>

definition noAspectRequest :: UGCAdGenerationRequest where
  "noAspectRequest =
     \<lparr> sourceVideo = ''source.mp4'', numberOfAds = 1, targetAspectRatio = [],
       ugcStyle = Some [Casual], duration = None, additionalPrompts = None \<rparr>"

section \<open>Properties of the cost function and the ledger\<close>

text \<open>
  C7: \<open>calculateVideoCost d r\<close> is \<open>max (d * rate r) 5\<close> with rates 0.5 for 720p and 1.0
  for 1080p; 3 s at 1080p and 10 s at 720p cost the minimum charge 5, 20 s at 1080p costs
  20. The result is a function of the two arguments alone.
\<close>

theorem calculateVideoCost_formula:
  "calculateVideoCost d R720p = max (d * 0.5) 5.0
   \<and> calculateVideoCost d R1080p = max (d * 1.0) 5.0
   \<and> calculateVideoCost 3 R1080p = 5.0
   \<and> calculateVideoCost 10 R720p = 5.0
   \<and> calculateVideoCost 20 R1080p = 20.0"
  by (simp add: calculateVideoCost_def SORA2_PRICING_minimumCharge_def)

lemma trackerCall_budget: "monthlyBudget (trackerCall t c) = monthlyBudget t"
  by (cases c) (simp_all add: recordCost_def reset_def Let_def)

lemma trackerCall_sum:
  "totalCost t = sum_list (map amount (costs t))
   \<Longrightarrow> totalCost (trackerCall t c) = sum_list (map amount (costs (trackerCall t c)))"
  by (cases c) (simp_all add: recordCost_def reset_def Let_def)

lemma trackerCalls_snoc: "trackerCalls t (cs @ [c]) = trackerCall (trackerCalls t cs) c"
  by (simp add: trackerCalls_def)

lemma trackerCalls_budget: "monthlyBudget (trackerCalls t cs) = monthlyBudget t"
  by (induction cs rule: rev_induct) (simp_all add: trackerCalls_def trackerCall_budget)

lemma trackerCalls_sum:
  "totalCost t = sum_list (map amount (costs t))
   \<Longrightarrow> totalCost (trackerCalls t cs) = sum_list (map amount (costs (trackerCalls t cs)))"
proof (induction cs rule: rev_induct)
  case Nil
  then show ?case by (simp add: trackerCalls_def)
next
  case (snoc c cs)
  then show ?case by (simp only: trackerCalls_snoc trackerCall_sum)
qed

lemma recordsSinceReset_snoc:
  "recordsSinceReset (cs @ [c]) =
     (case c of CallReset \<Rightarrow> 0
      | CallRecordCost now amt descr \<Rightarrow> Suc (recordsSinceReset cs)
      | _ \<Rightarrow> recordsSinceReset cs)"
  by (induction cs) (auto split: TrackerCall.splits)

lemma trackerCalls_length:
  "costs t = [] \<Longrightarrow> length (costs (trackerCalls t cs)) = recordsSinceReset cs"
proof (induction cs rule: rev_induct)
  case Nil
  then show ?case by (simp add: trackerCalls_def)
next
  case (snoc c cs)
  then show ?case
    by (cases c) (simp_all add: trackerCalls_snoc recordsSinceReset_snoc recordCost_def reset_def Let_def)
qed

text \<open>
  C10: from a fresh tracker and after any sequence of \<open>recordCost\<close>, \<open>reset\<close> and query
  calls, the total is the sum of the amounts in the history, the history has one entry per
  \<open>recordCost\<close> since the last \<open>reset\<close>, and the remaining budget is
  \<open>max 0 (monthlyBudget - totalCost)\<close>, hence never negative. \<open>recordCost\<close> has no failing
  branch: in every state, over budget or not, it appends its entry and adds its amount.
\<close>

theorem costTracker_invariant:
  "getTotalCost (trackerCalls (newCostTracker budget) cs)
     = sum_list (map amount (costs (trackerCalls (newCostTracker budget) cs)))
   \<and> length (costs (trackerCalls (newCostTracker budget) cs)) = recordsSinceReset cs
   \<and> getRemainingBudget (trackerCalls (newCostTracker budget) cs)
     = max 0 (budget - getTotalCost (trackerCalls (newCostTracker budget) cs))
   \<and> 0 \<le> getRemainingBudget (trackerCalls (newCostTracker budget) cs)
   \<and> costs (fst (recordCost now amt descr t))
     = costs t @ [\<lparr> timestamp = now, amount = amt, description = descr \<rparr>]
   \<and> getTotalCost (fst (recordCost now amt descr t)) = getTotalCost t + amt"
proof -
  have "totalCost (newCostTracker budget) = sum_list (map amount (costs (newCostTracker budget)))"
    by (simp add: newCostTracker_def)
  then have "getTotalCost (trackerCalls (newCostTracker budget) cs)
     = sum_list (map amount (costs (trackerCalls (newCostTracker budget) cs)))"
    unfolding getTotalCost_def by (rule trackerCalls_sum)
  moreover have "length (costs (trackerCalls (newCostTracker budget) cs)) = recordsSinceReset cs"
    by (rule trackerCalls_length) (simp add: newCostTracker_def)
  moreover have "monthlyBudget (trackerCalls (newCostTracker budget) cs) = budget"
    by (simp add: trackerCalls_budget newCostTracker_def)
  ultimately show ?thesis
    by (simp add: getRemainingBudget_def getTotalCost_def recordCost_def Let_def)
qed

section \<open>Properties of the retry executor\<close>

text \<open>One round of the loop, case by case.\<close>

lemma retryable_logs: "isRetryableError e retryable \<Longrightarrow> loggerThrows e = None"
  by (cases e) simp_all

lemma withRetryLoop_over:
  "\<not> int a \<le> maxRetries config
   \<Longrightarrow> withRetryLoop fn config ctx a lastError = (Inl (retriesExhausted ctx config lastError), [])"
  by (subst withRetryLoop.simps) simp

lemma withRetryLoop_returned:
  "int a \<le> maxRetries config \<Longrightarrow> fn a = Inr v
   \<Longrightarrow> withRetryLoop fn config ctx a lastError = (Inr v, backoffSegment config a)"
  by (subst withRetryLoop.simps)
     (simp add: backoffSegment_def calculateBackoffDelay_def Let_def)

lemma withRetryLoop_fatal:
  "int a \<le> maxRetries config \<Longrightarrow> fn a = Inl e \<Longrightarrow> \<not> isRetryableError e (retryableErrors config)
   \<Longrightarrow> withRetryLoop fn config ctx a lastError
       = (case loggerThrows e of Some logging \<Rightarrow> Inl logging | None \<Rightarrow> Inl e,
          backoffSegment config a)"
  by (subst withRetryLoop.simps)
     (simp add: backoffSegment_def calculateBackoffDelay_def Let_def split: option.splits)

lemma withRetryLoop_exhausted:
  "int a = maxRetries config \<Longrightarrow> fn a = Inl e \<Longrightarrow> isRetryableError e (retryableErrors config)
   \<Longrightarrow> withRetryLoop fn config ctx a lastError
       = (Inl (retriesExhausted ctx config (Some e)), backoffSegment config a)"
  by (subst withRetryLoop.simps)
     (simp add: backoffSegment_def calculateBackoffDelay_def Let_def retryable_logs)

lemma withRetryLoop_again:
  "int a < maxRetries config \<Longrightarrow> fn a = Inl e \<Longrightarrow> isRetryableError e (retryableErrors config)
   \<Longrightarrow> withRetryLoop fn config ctx a lastError
       = (fst (withRetryLoop fn config ctx (Suc a) (Some e)),
          backoffSegment config a @ snd (withRetryLoop fn config ctx (Suc a) (Some e)))"
  by (subst withRetryLoop.simps)
     (simp add: backoffSegment_def calculateBackoffDelay_def Let_def retryable_logs
        split: prod.splits)

text \<open>The five ways a round goes, as a case rule.\<close>

lemma withRetryLoop_cases:
  obtains
    (over) "\<not> int a \<le> maxRetries config"
      "withRetryLoop fn config ctx a lastError = (Inl (retriesExhausted ctx config lastError), [])"
  | (returned) v where "int a \<le> maxRetries config" "fn a = Inr v"
      "withRetryLoop fn config ctx a lastError = (Inr v, backoffSegment config a)"
  | (fatal) e where "int a \<le> maxRetries config" "fn a = Inl e"
      "\<not> isRetryableError e (retryableErrors config)"
      "withRetryLoop fn config ctx a lastError
         = (case loggerThrows e of Some logging \<Rightarrow> Inl logging | None \<Rightarrow> Inl e,
            backoffSegment config a)"
  | (exhausted) e where "int a = maxRetries config" "fn a = Inl e"
      "isRetryableError e (retryableErrors config)"
      "withRetryLoop fn config ctx a lastError
         = (Inl (retriesExhausted ctx config (Some e)), backoffSegment config a)"
  | (again) e where "int a < maxRetries config" "fn a = Inl e"
      "isRetryableError e (retryableErrors config)"
      "withRetryLoop fn config ctx a lastError
         = (fst (withRetryLoop fn config ctx (Suc a) (Some e)),
            backoffSegment config a @ snd (withRetryLoop fn config ctx (Suc a) (Some e)))"
proof (cases "int a \<le> maxRetries config")
  case False
  show ?thesis
    by (rule over [OF False withRetryLoop_over [OF False]])
next
  case le: True
  show ?thesis
  proof (cases "fn a")
    case (Inr v)
    show ?thesis
      by (rule returned [OF le Inr withRetryLoop_returned [where fn = fn and a = a, OF le Inr]])
  next
    case (Inl e)
    show ?thesis
    proof (cases "isRetryableError e (retryableErrors config)")
      case False
      show ?thesis
        by (rule fatal [OF le Inl False withRetryLoop_fatal [where fn = fn and a = a, OF le Inl False]])
    next
      case retry: True
      show ?thesis
      proof (cases "int a = maxRetries config")
        case True
        show ?thesis
          by (rule exhausted [OF True Inl retry withRetryLoop_exhausted [where fn = fn and a = a, OF True Inl retry]])
      next
        case False
        with le have below: "int a < maxRetries config" by simp
        show ?thesis
          by (rule again [OF below Inl retry withRetryLoop_again [where fn = fn and a = a, OF below Inl retry]])
      qed
    qed
  qed
qed

text \<open>Induction over the rounds: a further round follows a retryable failure below the limit.\<close>

lemma withRetryLoop_rounds [case_names round]:
  assumes step: "\<And>a lastError.
     (\<And>e. int a < maxRetries config \<Longrightarrow> fn a = Inl e
          \<Longrightarrow> isRetryableError e (retryableErrors config) \<Longrightarrow> P (Suc a) (Some e))
     \<Longrightarrow> P a lastError"
  shows "P a lastError"
proof -
  have "\<forall>lastError. P a lastError"
  proof (induction a rule: measure_induct_rule [where f = "\<lambda>a. nat (maxRetries config + 1 - int a)"])
    case (less a)
    show ?case
    proof (intro allI)
      fix lastError
      show "P a lastError"
      proof (rule step)
        fix e
        assume "int a < maxRetries config"
        then have "nat (maxRetries config + 1 - int (Suc a)) < nat (maxRetries config + 1 - int a)"
          by simp
        with less show "P (Suc a) (Some e)"
          by blast
      qed
    qed
  qed
  then show ?thesis by blast
qed

lemma Called_backoffSegment: "Called k \<in> set (backoffSegment config a) \<longleftrightarrow> k = a"
  by (auto simp: backoffSegment_def)

lemma backoffSegment_Suc:
  "backoffSegment config (Suc j)
     = [Slept (min (initialDelay config * backoffMultiplier config ^ j) (maxDelay config)), Called (Suc j)]"
  by (simp add: backoffSegment_def)

text \<open>A round within the limit starts with its own events.\<close>

lemma withRetryLoop_head:
  "int a \<le> maxRetries config
   \<Longrightarrow> \<exists>after. snd (withRetryLoop fn config ctx a lastError) = backoffSegment config a @ after"
  by (cases rule: withRetryLoop_cases [of a config fn ctx lastError]) auto

text \<open>The events of a run are the events of its rounds, in order.\<close>

lemma withRetryLoop_events:
  "\<exists>n. snd (withRetryLoop fn config ctx a lastError) = concat (map (backoffSegment config) [a ..< a + n])
       \<and> int (a + n) \<le> max (int a) (maxRetries config + 1)"
proof (induction a lastError rule: withRetryLoop_rounds [where config = config and fn = fn])
  case (round a lastError)
  have one: "concat (map (backoffSegment config) [a ..< a + 1]) = backoffSegment config a"
    by simp
  show ?case
  proof (cases rule: withRetryLoop_cases [of a config fn ctx lastError])
    case over
    then show ?thesis by (intro exI [of _ 0]) simp
  next
    case (returned v)
    with one show ?thesis by (intro exI [of _ 1]) simp
  next
    case (fatal e)
    with one show ?thesis by (intro exI [of _ 1]) simp
  next
    case (exhausted e)
    with one show ?thesis by (intro exI [of _ 1]) simp
  next
    case (again e)
    from round [OF again(1-3)] obtain n where
      n: "snd (withRetryLoop fn config ctx (Suc a) (Some e))
            = concat (map (backoffSegment config) [Suc a ..< Suc a + n])"
      and bound: "int (Suc a + n) \<le> max (int (Suc a)) (maxRetries config + 1)"
      by blast
    have "a # [Suc a ..< Suc a + n] = [a ..< a + Suc n]"
      using upt_conv_Cons [of a "a + Suc n"] by simp
    then have "concat (map (backoffSegment config) [a ..< a + Suc n])
        = backoffSegment config a @ concat (map (backoffSegment config) [Suc a ..< Suc a + n])"
      by (metis concat.simps(2) list.simps(9))
    with again n bound show ?thesis
      by (intro exI [of _ "Suc n"]) auto
  qed
qed

lemma calls_backoffSegments:
  "length (filter is_Called (concat (map (backoffSegment config) [a ..< a + n]))) = n"
  by (induction n) (simp_all add: backoffSegment_def)

text \<open>After a retryable failure below the limit come the backoff sleep and the next call.\<close>

lemma withRetryLoop_retries:
  "Called j \<in> set (snd (withRetryLoop fn config ctx a lastError)) \<Longrightarrow> fn j = Inl e
   \<Longrightarrow> isRetryableError e (retryableErrors config) \<Longrightarrow> int (Suc j) \<le> maxRetries config
   \<Longrightarrow> \<exists>before after. snd (withRetryLoop fn config ctx a lastError)
         = before @ [Called j] @ backoffSegment config (Suc j) @ after"
proof (induction a lastError rule: withRetryLoop_rounds [where config = config and fn = fn])
  case (round a lastError)
  show ?case
  proof (cases rule: withRetryLoop_cases [of a config fn ctx lastError])
    case over
    with round.prems show ?thesis by simp
  next
    case (returned v)
    with round.prems show ?thesis by (simp add: Called_backoffSegment)
  next
    case (fatal e')
    with round.prems show ?thesis by (auto simp: Called_backoffSegment)
  next
    case (exhausted e')
    with round.prems show ?thesis by (auto simp: Called_backoffSegment)
  next
    case (again e')
    let ?rest = "snd (withRetryLoop fn config ctx (Suc a) (Some e'))"
    show ?thesis
    proof (cases "j = a")
      case True
      from again(1) have "int (Suc a) \<le> maxRetries config" by simp
      from withRetryLoop_head [OF this, of fn ctx "Some e'"] obtain after where
        rest: "?rest = backoffSegment config (Suc a) @ after"
        by blast
      obtain front where front: "backoffSegment config a = front @ [Called a]"
        by (simp add: backoffSegment_def)
      from again rest front True show ?thesis
        by (intro exI [of _ front] exI [of _ after]) simp
    next
      case False
      with round.prems(1) again have "Called j \<in> set ?rest"
        by (simp add: Called_backoffSegment)
      from round.IH [OF again(1-3) this round.prems(2-4)] obtain before after where
        "?rest = before @ [Called j] @ backoffSegment config (Suc j) @ after"
        by blast
      with again show ?thesis
        by (intro exI [of _ "backoffSegment config a @ before"] exI [of _ after]) simp
    qed
  qed
qed

text \<open>A round after the first is there only after a retryable failure below the limit.\<close>

lemma withRetryLoop_retried:
  "Called (Suc j) \<in> set (snd (withRetryLoop fn config ctx a lastError)) \<Longrightarrow> a \<le> j
   \<Longrightarrow> \<exists>e. fn j = Inl e \<and> isRetryableError e (retryableErrors config)
         \<and> int (Suc j) \<le> maxRetries config"
proof (induction a lastError rule: withRetryLoop_rounds [where config = config and fn = fn])
  case (round a lastError)
  show ?case
  proof (cases rule: withRetryLoop_cases [of a config fn ctx lastError])
    case over
    with round.prems show ?thesis by simp
  next
    case (returned v)
    with round.prems show ?thesis by (simp add: Called_backoffSegment)
  next
    case (fatal e')
    with round.prems show ?thesis by (auto simp: Called_backoffSegment)
  next
    case (exhausted e')
    with round.prems show ?thesis by (auto simp: Called_backoffSegment)
  next
    case (again e')
    show ?thesis
    proof (cases "j = a")
      case True
      with again show ?thesis by simp
    next
      case False
      with round.prems have later: "Suc a \<le> j" by simp
      from round.prems again have
        "Called (Suc j) \<in> set (snd (withRetryLoop fn config ctx (Suc a) (Some e')))"
        by (simp add: Called_backoffSegment)
      from round.IH [OF again(1-3) this later] show ?thesis .
    qed
  qed
qed

text \<open>
  A round that throws a value that is no \<open>Error\<close> is the last one; the result is that
  value when the logger can print it, and what the logger throws otherwise.
\<close>

lemma withRetryLoop_nonError:
  "Called k \<in> set (snd (withRetryLoop fn config ctx a lastError)) \<Longrightarrow> fn k = Inl (NonError v u)
   \<Longrightarrow> fst (withRetryLoop fn config ctx a lastError)
         = (case u of Some logging \<Rightarrow> Inl logging | None \<Rightarrow> Inl (NonError v u))
       \<and> (\<exists>before. snd (withRetryLoop fn config ctx a lastError) = before @ [Called k])"
proof (induction a lastError rule: withRetryLoop_rounds [where config = config and fn = fn])
  case (round a lastError)
  show ?case
  proof (cases rule: withRetryLoop_cases [of a config fn ctx lastError])
    case over
    with round.prems show ?thesis by simp
  next
    case (returned x)
    with round.prems show ?thesis by (simp add: Called_backoffSegment)
  next
    case (fatal e)
    with round.prems have "k = a" by (simp add: Called_backoffSegment)
    with fatal round.prems show ?thesis
      by (auto simp: backoffSegment_def)
  next
    case (exhausted e)
    with round.prems show ?thesis by (auto simp: Called_backoffSegment)
  next
    case (again e)
    with round.prems have "k \<noteq> a" by auto
    with round.prems again have
      "Called k \<in> set (snd (withRetryLoop fn config ctx (Suc a) (Some e)))"
      by (simp add: Called_backoffSegment)
    from round.IH [OF again(1-3) this round.prems(2)] obtain before where
      "fst (withRetryLoop fn config ctx (Suc a) (Some e))
         = (case u of Some logging \<Rightarrow> Inl logging | None \<Rightarrow> Inl (NonError v u))"
      "snd (withRetryLoop fn config ctx (Suc a) (Some e)) = before @ [Called k]"
      by blast
    with again show ?thesis by simp
  qed
qed

lemma withRetry_nonError_outcome:
  assumes "Called k \<in> set (snd (withRetry fn config ctx))" and "fn k = Inl (NonError v u)"
  shows "\<not> isRetryableError (NonError v u) retryable
       \<and> fst (withRetry fn config ctx)
           = (case u of Some logging \<Rightarrow> Inl logging | None \<Rightarrow> Inl (NonError v u))
       \<and> (\<exists>before. snd (withRetry fn config ctx) = before @ [Called k])"
  using assms withRetryLoop_nonError [of k fn config ctx 0 None v u] by (simp add: withRetry_def)

lemma timing_out_run:
  "withRetry alwaysTimesOut
     \<lparr> maxRetries = 6, initialDelay = 30000, maxDelay = 300000, backoffMultiplier = 2,
       retryableErrors = [''APITimeout''] \<rparr> ''operation''
     = (Inl (retriesExhausted ''operation''
               \<lparr> maxRetries = 6, initialDelay = 30000, maxDelay = 300000, backoffMultiplier = 2,
                 retryableErrors = [''APITimeout''] \<rparr> (Some (newError ''APITimeout''))),
        [Called 0, Slept 30000, Called 1, Slept 60000, Called 2, Slept 120000, Called 3,
         Slept 240000, Called 4, Slept 300000, Called 5, Slept 300000, Called 6])"
  by (simp add: withRetry_def withRetryLoop.simps alwaysTimesOut_def
        calculateBackoffDelay_def newError_def)

lemma exhausting_run:
  "withRetry alwaysTimesOut sixRetries ''operation''
     = (Inl (retriesExhausted ''operation'' sixRetries (Some (newError ''APITimeout''))),
        [Called 0, Slept 30000, Called 1, Slept 60000, Called 2, Slept 120000, Called 3,
         Slept 240000, Called 4, Slept 300000, Called 5, Slept 300000, Called 6])"
  by (simp add: withRetry_def withRetryLoop.simps alwaysTimesOut_def sixRetries_def
        defaultRetryConfig_def calculateBackoffDelay_def newError_def)

text \<open>
  C4: the events of \<open>withRetry\<close> are, round by round, the call of the operation, preceded
  from round 1 on by a sleep of \<open>min (initialDelay * multiplier ^ (k - 1)) maxDelay\<close>
  milliseconds, and there are at most \<open>maxRetries + 1\<close> rounds. With 30000, 2 and 300000
  the delays of rounds 1 to 6 are 30000, 60000, 120000, 240000, 300000, 300000, and
  these are the sleeps of a run under that configuration whose operation times out in
  every one of its seven rounds. The rounds do take place: unless \<open>maxRetries\<close> is negative the first event is the call of
  round 0, with no sleep before it; when round \<open>j\<close> fails with a retryable error and
  \<open>j + 1 \<le> maxRetries\<close>, the call of round \<open>j\<close> is followed at once by the sleep of
  \<open>min (initialDelay * multiplier ^ j) maxDelay\<close> milliseconds and the call of round
  \<open>j + 1\<close>; and round \<open>j + 1\<close> is there only after such a failure of round \<open>j\<close>.
\<close>

theorem withRetry_backoff:
  "snd (withRetry fn config ctx) =
     concat (map (\<lambda>k. (if k = 0 then []
                        else [Slept (min (initialDelay config * backoffMultiplier config ^ (k - 1))
                                         (maxDelay config))]) @ [Called k])
                 [0 ..< length (filter is_Called (snd (withRetry fn config ctx)))])
   \<and> int (length (filter is_Called (snd (withRetry fn config ctx)))) \<le> max 0 (maxRetries config + 1)
   \<and> map (\<lambda>k. calculateBackoffDelay (k - 1)
           \<lparr> maxRetries = m, initialDelay = 30000, maxDelay = 300000, backoffMultiplier = 2,
             retryableErrors = rs \<rparr>) [1 ..< 7]
     = [30000, 60000, 120000, 240000, 300000, 300000]
   \<and> snd (withRetry alwaysTimesOut
             \<lparr> maxRetries = 6, initialDelay = 30000, maxDelay = 300000, backoffMultiplier = 2,
               retryableErrors = [''APITimeout''] \<rparr> ''operation'')
     = [Called 0, Slept 30000, Called 1, Slept 60000, Called 2, Slept 120000, Called 3,
        Slept 240000, Called 4, Slept 300000, Called 5, Slept 300000, Called 6]
   \<and> (0 \<le> maxRetries config \<longrightarrow> (\<exists>after. snd (withRetry fn config ctx) = Called 0 # after))
   \<and> (Called j \<in> set (snd (withRetry fn config ctx)) \<and> fn j = Inl e
        \<and> isRetryableError e (retryableErrors config) \<and> int (Suc j) \<le> maxRetries config
      \<longrightarrow> (\<exists>before after. snd (withRetry fn config ctx)
             = before @ [Called j,
                         Slept (min (initialDelay config * backoffMultiplier config ^ j) (maxDelay config)),
                         Called (Suc j)] @ after))
   \<and> (Called (Suc j) \<in> set (snd (withRetry fn config ctx))
      \<longrightarrow> (\<exists>e'. fn j = Inl e' \<and> isRetryableError e' (retryableErrors config)
               \<and> int (Suc j) \<le> maxRetries config))"
proof (intro conjI impI)
  have seg: "backoffSegment config =
      (\<lambda>k. (if k = 0 then []
            else [Slept (min (initialDelay config * backoffMultiplier config ^ (k - 1)) (maxDelay config))])
           @ [Called k])"
    by (rule ext) (simp add: backoffSegment_def)
  obtain n where n: "snd (withRetry fn config ctx) = concat (map (backoffSegment config) [0 ..< 0 + n])"
    and b: "int (0 + n) \<le> max (int 0) (maxRetries config + 1)"
    unfolding withRetry_def using withRetryLoop_events [of fn config ctx 0 None] by blast
  have len: "length (filter is_Called (snd (withRetry fn config ctx))) = n"
    unfolding n by (rule calls_backoffSegments)
  have "snd (withRetry fn config ctx) =
      concat (map (backoffSegment config) [0 ..< length (filter is_Called (snd (withRetry fn config ctx)))])"
    using n len by simp
  then show "snd (withRetry fn config ctx) =
     concat (map (\<lambda>k. (if k = 0 then []
                        else [Slept (min (initialDelay config * backoffMultiplier config ^ (k - 1))
                                         (maxDelay config))]) @ [Called k])
                 [0 ..< length (filter is_Called (snd (withRetry fn config ctx)))])"
    unfolding seg .
  show "int (length (filter is_Called (snd (withRetry fn config ctx)))) \<le> max 0 (maxRetries config + 1)"
    using b len by simp
next
  show "map (\<lambda>k. calculateBackoffDelay (k - 1)
           \<lparr> maxRetries = m, initialDelay = 30000, maxDelay = 300000, backoffMultiplier = 2,
             retryableErrors = rs \<rparr>) [1 ..< 7]
     = [30000, 60000, 120000, 240000, 300000, 300000]"
    by (simp add: calculateBackoffDelay_def upt_conv_Cons)
next
  show "snd (withRetry alwaysTimesOut
             \<lparr> maxRetries = 6, initialDelay = 30000, maxDelay = 300000, backoffMultiplier = 2,
               retryableErrors = [''APITimeout''] \<rparr> ''operation'')
     = [Called 0, Slept 30000, Called 1, Slept 60000, Called 2, Slept 120000, Called 3,
        Slept 240000, Called 4, Slept 300000, Called 5, Slept 300000, Called 6]"
    by (simp add: timing_out_run)
next
  assume "0 \<le> maxRetries config"
  then have "int 0 \<le> maxRetries config" by simp
  from withRetryLoop_head [OF this, of fn ctx None]
  show "\<exists>after. snd (withRetry fn config ctx) = Called 0 # after"
    by (simp add: withRetry_def backoffSegment_def)
next
  assume "Called j \<in> set (snd (withRetry fn config ctx)) \<and> fn j = Inl e
        \<and> isRetryableError e (retryableErrors config) \<and> int (Suc j) \<le> maxRetries config"
  then have "Called j \<in> set (snd (withRetryLoop fn config ctx 0 None))" "fn j = Inl e"
    "isRetryableError e (retryableErrors config)" "int (Suc j) \<le> maxRetries config"
    by (simp_all add: withRetry_def)
  from withRetryLoop_retries [OF this]
  show "\<exists>before after. snd (withRetry fn config ctx)
             = before @ [Called j,
                         Slept (min (initialDelay config * backoffMultiplier config ^ j) (maxDelay config)),
                         Called (Suc j)] @ after"
    by (simp add: withRetry_def backoffSegment_Suc)
next
  assume "Called (Suc j) \<in> set (snd (withRetry fn config ctx))"
  then have "Called (Suc j) \<in> set (snd (withRetryLoop fn config ctx 0 None))"
    by (simp add: withRetry_def)
  from withRetryLoop_retried [OF this]
  show "\<exists>e'. fn j = Inl e' \<and> isRetryableError e' (retryableErrors config)
               \<and> int (Suc j) \<le> maxRetries config"
    by simp
qed

theorem withRetry_backoff_witness:
  "0 \<le> maxRetries sixRetries
   \<and> snd (withRetry alwaysTimesOut sixRetries ''operation'')
       = [Called 0, Slept 30000, Called 1, Slept 60000, Called 2, Slept 120000, Called 3,
          Slept 240000, Called 4, Slept 300000, Called 5, Slept 300000, Called 6]
   \<and> (\<exists>after. snd (withRetry alwaysTimesOut sixRetries ''operation'') = Called 0 # after)
   \<and> Called 4 \<in> set (snd (withRetry alwaysTimesOut sixRetries ''operation''))
   \<and> alwaysTimesOut 4 = Inl (newError ''APITimeout'')
   \<and> isRetryableError (newError ''APITimeout'') (retryableErrors sixRetries)
   \<and> int (Suc 4) \<le> maxRetries sixRetries
   \<and> (\<exists>before after. snd (withRetry alwaysTimesOut sixRetries ''operation'')
         = before @ [Called 4, Slept 300000, Called (Suc 4)] @ after)
   \<and> Called (Suc 4) \<in> set (snd (withRetry alwaysTimesOut sixRetries ''operation''))
   \<and> (\<exists>e'. alwaysTimesOut 4 = Inl e' \<and> isRetryableError e' (retryableErrors sixRetries))"
proof -
  have facts: "0 \<le> maxRetries sixRetries" "alwaysTimesOut 4 = Inl (newError ''APITimeout'')"
    "isRetryableError (newError ''APITimeout'') (retryableErrors sixRetries)"
    "int (Suc 4) \<le> maxRetries sixRetries"
    "min (initialDelay sixRetries * backoffMultiplier sixRetries ^ 4) (maxDelay sixRetries) = 300000"
    by (simp_all add: sixRetries_def defaultRetryConfig_def alwaysTimesOut_def newError_def)
  have run: "snd (withRetry alwaysTimesOut sixRetries ''operation'')
       = [Called 0, Slept 30000, Called 1, Slept 60000, Called 2, Slept 120000, Called 3,
          Slept 240000, Called 4, Slept 300000, Called 5, Slept 300000, Called 6]"
    by (simp add: exhausting_run)
  have calls: "Called 4 \<in> set (snd (withRetry alwaysTimesOut sixRetries ''operation''))"
    "Called (Suc 4) \<in> set (snd (withRetry alwaysTimesOut sixRetries ''operation''))"
    unfolding run by simp_all
  note general = withRetry_backoff [where fn = alwaysTimesOut and config = sixRetries
      and ctx = "''operation''" and j = 4 and e = "newError ''APITimeout''"]
  from general facts(1) have first:
    "\<exists>after. snd (withRetry alwaysTimesOut sixRetries ''operation'') = Called 0 # after"
    by blast
  from general calls(1) facts(2-4) have
    "\<exists>before after. snd (withRetry alwaysTimesOut sixRetries ''operation'')
         = before @ [Called 4,
              Slept (min (initialDelay sixRetries * backoffMultiplier sixRetries ^ 4) (maxDelay sixRetries)),
              Called (Suc 4)] @ after"
    by blast
  then have next_round:
    "\<exists>before after. snd (withRetry alwaysTimesOut sixRetries ''operation'')
         = before @ [Called 4, Slept 300000, Called (Suc 4)] @ after"
    unfolding facts(5) .
  from general calls(2) have only_after:
    "\<exists>e'. alwaysTimesOut 4 = Inl e' \<and> isRetryableError e' (retryableErrors sixRetries)"
    by blast
  from facts(1-4) run first calls next_round only_after show ?thesis
    by (intro conjI)
qed

text \<open>
  C9, evaluated on the code: a thrown value that is no \<open>Error\<close> is to be propagated at
  once, with no retry and no delay. For the BigInt \<open>10n\<close> \<open>isRetryableError\<close> is false
  and \<open>withRetry\<close> makes one call, with no sleep and no retry; but it does not reject
  with the thrown value: \<open>logger.error\<close>, which stands before \<open>throw error\<close>, throws the
  \<open>TypeError\<close> of \<open>JSON.stringify\<close>, and that is what the caller gets.
\<close>

theorem unserialisable_value_replaced:
  "\<not> isRetryableError thrownBigInt (retryableErrors defaultRetryConfig)
   \<and> withRetry throwsBigInt defaultRetryConfig ''operation'' = (Inl bigIntTypeError, [Called 0])
   \<and> bigIntTypeError \<noteq> thrownBigInt"
  by (simp add: withRetry_def withRetryLoop.simps throwsBigInt_def thrownBigInt_def
        bigIntTypeError_def defaultRetryConfig_def)

section \<open>Properties of the job poller\<close>

lemma pollLoop_timeout:
  "int RATE_LIMIT_generationTimeout < int now - int startTime
   \<Longrightarrow> pollLoop world jobId startTime k now progress = (Inl (newError (timeoutMessage jobId)), [])"
  by (subst pollLoop.simps) simp

lemma pollLoop_rejected:
  "\<not> int RATE_LIMIT_generationTimeout < int now - int startTime
   \<Longrightarrow> getJobStatus jobId (statusReply world k) = Inl e
   \<Longrightarrow> pollLoop world jobId startTime k now progress = (Inl e, [Queried k])"
  by (subst pollLoop.simps) simp

lemma pollLoop_completed:
  "\<not> int RATE_LIMIT_generationTimeout < int now - int startTime
   \<Longrightarrow> getJobStatus jobId (statusReply world k) = Inr s \<Longrightarrow> res_status s = Completed
   \<Longrightarrow> pollLoop world jobId startTime k now progress = (Inr s, [Queried k])"
  by (subst pollLoop.simps) (simp add: Let_def)

lemma pollLoop_failed:
  "\<not> int RATE_LIMIT_generationTimeout < int now - int startTime
   \<Longrightarrow> getJobStatus jobId (statusReply world k) = Inr s \<Longrightarrow> res_status s = Failed
   \<Longrightarrow> pollLoop world jobId startTime k now progress =
         (Inl (newError (generationFailedMessage (res_error s))), [Queried k])"
  by (subst pollLoop.simps) (simp add: Let_def)

lemma pollLoop_inFlight:
  "\<not> int RATE_LIMIT_generationTimeout < int now - int startTime
   \<Longrightarrow> getJobStatus jobId (statusReply world k) = Inr s
   \<Longrightarrow> res_status s \<noteq> Completed \<Longrightarrow> res_status s \<noteq> Failed
   \<Longrightarrow> pollLoop world jobId startTime k now progress =
         (fst (pollLoop world jobId startTime (Suc k) (nextPoll world k now) (nextProgress progress s)),
          Queried k # Slept (real RATE_LIMIT_pollingInterval)
            # snd (pollLoop world jobId startTime (Suc k) (nextPoll world k now) (nextProgress progress s)))"
  by (subst pollLoop.simps) (simp add: Let_def nextPoll_def nextProgress_def split: prod.splits)

text \<open>The four ways a round ends, as a case rule.\<close>

lemma pollLoop_cases:
  obtains
    (timeout) "int RATE_LIMIT_generationTimeout < int now - int startTime"
      "pollLoop world jobId startTime k now progress = (Inl (newError (timeoutMessage jobId)), [])"
  | (rejected) e where "\<not> int RATE_LIMIT_generationTimeout < int now - int startTime"
      "getJobStatus jobId (statusReply world k) = Inl e"
      "pollLoop world jobId startTime k now progress = (Inl e, [Queried k])"
  | (completed) s where "\<not> int RATE_LIMIT_generationTimeout < int now - int startTime"
      "getJobStatus jobId (statusReply world k) = Inr s" "res_status s = Completed"
      "pollLoop world jobId startTime k now progress = (Inr s, [Queried k])"
  | (failed) s where "\<not> int RATE_LIMIT_generationTimeout < int now - int startTime"
      "getJobStatus jobId (statusReply world k) = Inr s" "res_status s = Failed"
      "pollLoop world jobId startTime k now progress =
         (Inl (newError (generationFailedMessage (res_error s))), [Queried k])"
  | (inFlight) s where "\<not> int RATE_LIMIT_generationTimeout < int now - int startTime"
      "getJobStatus jobId (statusReply world k) = Inr s"
      "res_status s \<noteq> Completed" "res_status s \<noteq> Failed"
      "pollLoop world jobId startTime k now progress =
         (fst (pollLoop world jobId startTime (Suc k) (nextPoll world k now) (nextProgress progress s)),
          Queried k # Slept (real RATE_LIMIT_pollingInterval)
            # snd (pollLoop world jobId startTime (Suc k) (nextPoll world k now) (nextProgress progress s)))"
proof (cases "int RATE_LIMIT_generationTimeout < int now - int startTime")
  case True
  then show ?thesis using pollLoop_timeout timeout by blast
next
  case no: False
  show ?thesis
  proof (cases "getJobStatus jobId (statusReply world k)")
    case (Inl e)
    with no show ?thesis using pollLoop_rejected rejected by blast
  next
    case (Inr s)
    show ?thesis
    proof (cases "res_status s = Completed")
      case True
      with no Inr show ?thesis using pollLoop_completed completed by blast
    next
      case nc: False
      show ?thesis
      proof (cases "res_status s = Failed")
        case True
        with no Inr show ?thesis using pollLoop_failed failed by blast
      next
        case False
        with no Inr nc show ?thesis using pollLoop_inFlight inFlight by blast
      qed
    qed
  qed
qed

text \<open>Induction over the rounds: the clock has moved on by at least one interval.\<close>

lemma pollLoop_induct [case_names round]:
  assumes step: "\<And>k now progress.
     (\<And>s. \<not> int RATE_LIMIT_generationTimeout < int now - int startTime
          \<Longrightarrow> P (Suc k) (nextPoll world k now) (nextProgress progress s))
     \<Longrightarrow> P k now progress"
  shows "P k now progress"
proof -
  have "\<forall>k progress. P k now progress"
  proof (induction now
      rule: measure_induct_rule [where f = "\<lambda>now. nat (int RATE_LIMIT_generationTimeout + 1 - (int now - int startTime))"])
    case (less now)
    show ?case
    proof (intro allI)
      fix k progress
      show "P k now progress"
      proof (rule step)
        fix s
        assume "\<not> int RATE_LIMIT_generationTimeout < int now - int startTime"
        then have "nat (int RATE_LIMIT_generationTimeout + 1 - (int (nextPoll world k now) - int startTime))
             < nat (int RATE_LIMIT_generationTimeout + 1 - (int now - int startTime))"
          by (simp add: nextPoll_def RATE_LIMIT_pollingInterval_def)
        with less show "P (Suc k) (nextPoll world k now) (nextProgress progress s)"
          by blast
      qed
    qed
  qed
  then show ?thesis by blast
qed







text \<open>Three runs: a job that completes, one that fails, one that never settles.\<close>

lemma run_completed:
  "pollJobStatus completingWorld ''job-1'' 5000
     = (Inr \<lparr> res_jobId = ''job-1'', res_status = Completed, res_videoUrl = Some ''https://cdn/v.mp4'',
              res_thumbnailUrl = None, res_error = None, res_progress = Some 100 \<rparr>,
        [Queried 0, Slept 10000, Queried 1, Slept 10000, Queried 2])"
  by (simp add: pollJobStatus_def pollLoop.simps steadyWorld_def completingWorld_def failingWorld_def inFlight_def finished_def
      RATE_LIMIT_generationTimeout_def RATE_LIMIT_pollingInterval_def)

lemma run_failed:
  "pollJobStatus failingWorld ''job-2'' 5000
     = (Inl (newError ''GenerationFailed: moderation''), [Queried 0, Slept 10000, Queried 1])"
  by (simp add: pollJobStatus_def pollLoop.simps steadyWorld_def completingWorld_def failingWorld_def inFlight_def broken_def
      RATE_LIMIT_generationTimeout_def RATE_LIMIT_pollingInterval_def generationFailedMessage_def)


text \<open>
  A response that the poller returns has status \<open>completed\<close>: a job reported as
  \<open>failed\<close> never reaches the caller as a response.
\<close>

lemma pollLoop_returns_completed:
  "fst (pollLoop world jobId startTime k now progress) = Inr s \<Longrightarrow> res_status s = Completed"
proof (induction k now progress rule: pollLoop_induct [where world = world and startTime = startTime])
  case (round k now progress)
  show ?case
  proof (cases rule: pollLoop_cases [of now startTime world jobId k progress])
    case timeout
    with round.prems show ?thesis by simp
  next
    case (rejected e)
    with round.prems show ?thesis by simp
  next
    case (completed s')
    with round.prems show ?thesis by simp
  next
    case (failed s')
    with round.prems show ?thesis by simp
  next
    case (inFlight s')
    with round.prems round.IH [OF inFlight(1), of s'] show ?thesis by simp
  qed
qed

lemma generate_returns_completed:
  "Sora2APIClient_generate retryConfig world request = Inr response \<Longrightarrow> res_status response = Completed"
  by (auto simp: Sora2APIClient_generate_def pollJobStatus_def split: sum.splits
      dest: pollLoop_returns_completed)

section \<open>Properties of the rate limiter\<close>

text \<open>What one call does when the window has room and when it is full.\<close>

lemma waitForRateLimit_free:
  "length (filter (\<lambda>t. int now - 60000 < int t) ts) < 3
   \<Longrightarrow> waitForRateLimit now ts = (filter (\<lambda>t. int now - 60000 < int t) ts @ [now], None)"
  by (simp add: waitForRateLimit_def rateLimitEnter_def RATE_LIMIT_requestsPerMinute_def)

lemma waitForRateLimit_full:
  assumes "3 \<le> length (filter (\<lambda>t. int now - 60000 < int t) ts)"
  shows "waitForRateLimit now ts =
           (filter (\<lambda>t. int now - 60000 < int t) ts @ [now],
            Some (60000 - (int now - int (hd (filter (\<lambda>t. int now - 60000 < int t) ts)))))"
proof -
  let ?kept = "filter (\<lambda>t. int now - 60000 < int t) ts"
  from assms obtain oldest rest where kept: "?kept = oldest # rest"
    by (cases ?kept) auto
  then have "oldest \<in> set ?kept" by simp
  then have "int now - 60000 < int oldest" by simp
  with assms kept show ?thesis
    by (simp add: waitForRateLimit_def rateLimitEnter_def rateLimitResume_def
        RATE_LIMIT_requestsPerMinute_def)
qed

text \<open>The calls of the run below, one by one.\<close>

lemma waitForRateLimit_steps:
  "waitForRateLimit 0 [] = ([0], None)"
  "waitForRateLimit 0 [0] = ([0, 0], None)"
  "waitForRateLimit 0 [0, 0] = ([0, 0, 0], None)"
  "waitForRateLimit 10 [0, 0, 0] = ([0, 0, 0, 10], Some 59990)"
  "waitForRateLimit 60000 [0, 0, 0, 10] = ([10, 60000], None)"
  "waitForRateLimit 60000 [10, 60000] = ([10, 60000, 60000], None)"
  "waitForRateLimit 60000 [10, 60000, 60000] = ([10, 60000, 60000, 60000], Some 10)"
  by (simp_all add: waitForRateLimit_def rateLimitEnter_def rateLimitResume_def
      RATE_LIMIT_requestsPerMinute_def)

text \<open>
  C3, evaluated on the code: seven calls in a row on a fresh client, entered at the clock
  readings 0, 0, 0, 10, 60000, 60000 and 60000 ms. The fourth call finds three entries in
  the window, sleeps 60000 - (10 - 0) = 59990 ms and then appends the reading 10 it took
  before the sleep, with no second look at the window: the window then records four
  submissions within 60000 ms of one another. The calls return at 0, 0, 0, 60000, 60000,
  60000 and 60010 ms, so four submissions go out within the 60000 ms that end at 60010.
\<close>

theorem rate_limit_exceeded:
  "acquireRun 0 [(0, 0), (0, 0), (0, 0), (10, 0), (0, 0), (0, 0), (0, 0)] []
     = ([10, 60000, 60000, 60000], [0, 0, 0, 60000, 60000, 60000, 60010])
   \<and> withinWindow 60010 [0, 0, 0, 60000, 60000, 60000, 60010] = [60000, 60000, 60000, 60010]
   \<and> waitForRateLimit 10 [0, 0, 0] = ([0, 0, 0, 10], Some 59990)
   \<and> withinWindow 10 [0, 0, 0, 10] = [0, 0, 0, 10]"
  by (simp add: Let_def waitForRateLimit_steps withinWindow_def)

section \<open>Properties of the generation plan\<close>

lemma planLoop_closed:
  assumes "allStylesOf request \<noteq> []" and "targetAspectRatio request \<noteq> []"
  shows "planLoop request (allStylesOf request) i plan
           = Inr (plan @ map (planAt request) [i ..< numberOfAds request])"
proof (induction "numberOfAds request - i" arbitrary: i plan)
  case 0
  then show ?case by (subst planLoop.simps) simp
next
  case (Suc m)
  then have less: "i < numberOfAds request" and m: "m = numberOfAds request - Suc i"
    by simp_all
  have style: "roundRobin (allStylesOf request) i
      = Some (allStylesOf request ! (i mod length (allStylesOf request)))"
    using assms by (simp add: roundRobin_def)
  have aspect: "roundRobin (targetAspectRatio request) i
      = Some (targetAspectRatio request ! (i mod length (targetAspectRatio request)))"
    using assms by (simp add: roundRobin_def)
  have upt: "[i ..< numberOfAds request] = i # [Suc i ..< numberOfAds request]"
    using less by (simp add: upt_conv_Cons)
  have even: "(i mod 2 = 0) = even i"
    by presburger
  have step: "planLoop request (allStylesOf request) i plan
      = planLoop request (allStylesOf request) (Suc i) (plan @ [planAt request i])"
    using less by (subst planLoop.simps) (simp add: style aspect planAt_def Let_def even)
  show ?case
    unfolding step upt using Suc.hyps(1) [OF m, of "plan @ [planAt request i]"] by simp
qed

text \<open>
  C5: for a request whose style list and aspect-ratio list are not empty,
  \<open>createGenerationPlan\<close> returns exactly \<open>numberOfAds\<close> plans; the plan of ordinal \<open>i\<close>
  (from 0) has style \<open>styles[i mod |styles|]\<close> and aspect ratio
  \<open>aspectRatios[i mod |aspectRatios|]\<close>, and its prompt is built with tone energetic for
  even \<open>i\<close> and friendly for odd \<open>i\<close>, and with pacing medium exactly when
  \<open>i < numberOfAds / 2\<close> and short otherwise. Five ads over styles A, B, C and aspect
  ratios X, Y get the styles A, B, C, A, B and the aspect ratios X, Y, X, Y, X. The plan is
  a function of the request.
\<close>

theorem createGenerationPlan_round_robin:
  assumes "allStylesOf request \<noteq> []" and "targetAspectRatio request \<noteq> []"
  shows "createGenerationPlan request =
           Inr (map (\<lambda>i. \<lparr> plan_ugcStyle = allStylesOf request ! (i mod length (allStylesOf request)),
                             plan_aspectRatio =
                               Some (targetAspectRatio request ! (i mod length (targetAspectRatio request))),
                             plan_prompt =
                               buildVariedPrompt (allStylesOf request ! (i mod length (allStylesOf request)))
                                 ''product''
                                 \<lparr> opt_tone = Some (if even i then Energetic else Friendly),
                                   opt_framing =
                                     Some (targetAspectRatio request ! (i mod length (targetAspectRatio request))),
                                   opt_pacing =
                                     Some (if real i < real (numberOfAds request) / 2 then Medium else Short),
                                   opt_additionalPrompts = additionalPrompts request \<rparr> \<rparr>)
                    [0 ..< numberOfAds request])
       \<and> map_sum id length (createGenerationPlan request) = Inr (numberOfAds request)
       \<and> map_sum id (map plan_ugcStyle)
            (createGenerationPlan
               \<lparr> sourceVideo = video, numberOfAds = 5, targetAspectRatio = [X, Y],
                 ugcStyle = Some [A, B, C], duration = seconds, additionalPrompts = extra \<rparr>)
          = Inr [A, B, C, A, B]
       \<and> map_sum id (map plan_aspectRatio)
            (createGenerationPlan
               \<lparr> sourceVideo = video, numberOfAds = 5, targetAspectRatio = [X, Y],
                 ugcStyle = Some [A, B, C], duration = seconds, additionalPrompts = extra \<rparr>)
          = Inr [Some X, Some Y, Some X, Some Y, Some X]"
proof -
  have closed: "createGenerationPlan r = Inr (map (planAt r) [0 ..< numberOfAds r])"
    if "allStylesOf r \<noteq> []" "targetAspectRatio r \<noteq> []" for r
    using that planLoop_closed [of r 0 "[]"] by (simp add: createGenerationPlan_def)
  have planAt: "planAt request = (\<lambda>i. \<lparr> plan_ugcStyle = allStylesOf request ! (i mod length (allStylesOf request)),
                             plan_aspectRatio =
                               Some (targetAspectRatio request ! (i mod length (targetAspectRatio request))),
                             plan_prompt =
                               buildVariedPrompt (allStylesOf request ! (i mod length (allStylesOf request)))
                                 ''product''
                                 \<lparr> opt_tone = Some (if even i then Energetic else Friendly),
                                   opt_framing =
                                     Some (targetAspectRatio request ! (i mod length (targetAspectRatio request))),
                                   opt_pacing =
                                     Some (if real i < real (numberOfAds request) / 2 then Medium else Short),
                                   opt_additionalPrompts = additionalPrompts request \<rparr> \<rparr>)"
    by (rule ext) (simp add: planAt_def)
  let ?five = "\<lparr> sourceVideo = video, numberOfAds = 5, targetAspectRatio = [X, Y],
                 ugcStyle = Some [A, B, C], duration = seconds, additionalPrompts = extra \<rparr>"
  have five: "createGenerationPlan ?five = Inr (map (planAt ?five) [0 ..< 5])"
    using closed [of ?five] by (simp add: allStylesOf_def)
  have idx: "[0 ..< 5] = [0, 1, 2, 3, 4::nat]"
    by (simp add: upt_conv_Cons)
  have s: "map_sum id (map plan_ugcStyle) (createGenerationPlan ?five) = Inr [A, B, C, A, B]"
    unfolding five idx by (simp add: planAt_def allStylesOf_def numeral_2_eq_2 [symmetric])
  have a: "map_sum id (map plan_aspectRatio) (createGenerationPlan ?five)
      = Inr [Some X, Some Y, Some X, Some Y, Some X]"
    unfolding five idx by (simp add: planAt_def allStylesOf_def numeral_2_eq_2 [symmetric])
  from closed [OF assms] planAt s a show ?thesis
    by simp
qed

theorem createGenerationPlan_round_robin_witness:
  "allStylesOf fiveAdsRequest \<noteq> [] \<and> targetAspectRatio fiveAdsRequest \<noteq> []
   \<and> map_sum id length (createGenerationPlan fiveAdsRequest) = Inr 5
   \<and> map_sum id (map plan_ugcStyle) (createGenerationPlan fiveAdsRequest)
       = Inr [Casual, Testimonial, Tutorial, Casual, Testimonial]
   \<and> map_sum id (map plan_aspectRatio) (createGenerationPlan fiveAdsRequest)
       = Inr [Some AR_9_16, Some AR_16_9, Some AR_9_16, Some AR_16_9, Some AR_9_16]"
proof -
  have styles: "allStylesOf fiveAdsRequest \<noteq> []" and aspects: "targetAspectRatio fiveAdsRequest \<noteq> []"
    by (simp_all add: fiveAdsRequest_def allStylesOf_def)
  note plan = createGenerationPlan_round_robin [OF styles aspects, of "''source.mp4''" AR_9_16 AR_16_9
      Casual Testimonial Tutorial None None]
  have count: "map_sum id length (createGenerationPlan fiveAdsRequest) = Inr 5"
    using plan [THEN conjunct2, THEN conjunct1] by (simp add: fiveAdsRequest_def)
  have "map_sum id (map plan_ugcStyle) (createGenerationPlan fiveAdsRequest)
       = Inr [Casual, Testimonial, Tutorial, Casual, Testimonial]"
    and "map_sum id (map plan_aspectRatio) (createGenerationPlan fiveAdsRequest)
       = Inr [Some AR_9_16, Some AR_16_9, Some AR_9_16, Some AR_16_9, Some AR_9_16]"
    using plan [THEN conjunct2, THEN conjunct2] unfolding fiveAdsRequest_def by blast+
  with styles aspects count show ?thesis
    by blast
qed

section \<open>Properties of the pipeline\<close>

text \<open>The loop body of step 5, branch by branch.\<close>

lemma scoreItem_noMedia:
  "(if res_status response = Failed then None else truthy (res_videoUrl response)) = None
   \<Longrightarrow> scoreItem cfg request world index plan response (generated, failed, tracker)
       = (Inr (generated,
               failed @ [\<lparr> failed_id = adId index,
                           failed_error = orElse (res_error response) generationFailedText,
                           failed_errorCode = ''GenerationFailed'',
                           failed_prompt = plan_prompt plan \<rparr>]),
          tracker)"
  by (simp add: scoreItem_def)

lemma scoreItem_lowScore:
  "(if res_status response = Failed then None else truthy (res_videoUrl response)) = Some videoUrl
   \<Longrightarrow> overall (scoreOf world index) < 70
   \<Longrightarrow> scoreItem cfg request world index plan response (generated, failed, tracker)
       = (Inr (generated,
               failed @ [\<lparr> failed_id = adId index,
                           failed_error = qualityTooLowMessage (numberText world (overall (scoreOf world index))),
                           failed_errorCode = ''QualityTooLow'',
                           failed_prompt = plan_prompt plan \<rparr>]),
          tracker)"
  by (simp add: scoreItem_def)

lemma scoreItem_passed:
  "(if res_status response = Failed then None else truthy (res_videoUrl response)) = Some videoUrl
   \<Longrightarrow> \<not> overall (scoreOf world index) < 70
   \<Longrightarrow> plan_aspectRatio plan = Some aspectRatio
   \<Longrightarrow> scoreItem cfg request world index plan response (generated, failed, tracker)
       = (Inr (generated @
                 [generatedAdOf cfg request index plan response videoUrl aspectRatio
                    (scoreOf world index)
                    (calculateVideoCost (durationOr10 request) (resolutionOrDefault cfg))],
               failed),
          fst (recordCost (recordedAt world index)
                 (calculateVideoCost (durationOr10 request) (resolutionOrDefault cfg))
                 (''Ad '' @ showNat (index + 1) @ '' generated'') tracker))"
  by (simp add: scoreItem_def Let_def)

lemma scoreItem_undefinedAspect:
  "(if res_status response = Failed then None else truthy (res_videoUrl response)) = Some videoUrl
   \<Longrightarrow> \<not> overall (scoreOf world index) < 70
   \<Longrightarrow> plan_aspectRatio plan = None
   \<Longrightarrow> fst (scoreItem cfg request world index plan response (generated, failed, tracker))
       = Inl replaceOfUndefined"
  by (simp add: scoreItem_def Let_def)

lemma scoreItem_accounts:
  assumes "scoreItem cfg request world index plan response (generated, failed, tracker)
     = (Inr (generated', failed'), tracker')"
  shows "totalCost tracker' + adCosts generated = totalCost tracker + adCosts generated'"
proof (cases "if res_status response = Failed then None else truthy (res_videoUrl response)")
  case None
  from assms show ?thesis
    unfolding scoreItem_noMedia [OF None] by simp
next
  case (Some videoUrl)
  show ?thesis
  proof (cases "overall (scoreOf world index) < 70")
    case True
    from assms show ?thesis
      unfolding scoreItem_lowScore [OF Some True] by simp
  next
    case False
    show ?thesis
    proof (cases "plan_aspectRatio plan")
      case None
      from assms scoreItem_undefinedAspect [OF Some False None, of cfg request generated failed tracker]
      show ?thesis by simp
    next
      case (Some aspectRatio)
      from assms show ?thesis
        unfolding scoreItem_passed [OF \<open>_ = Some videoUrl\<close> False Some]
        by (auto simp: adCosts_def recordCost_def Let_def generatedAdOf_def)
    qed
  qed
qed

lemma scoreLoop_accounts:
  "scoreLoop cfg request world index items (generated, failed, tracker)
     = (Inr (generated', failed'), tracker')
   \<Longrightarrow> totalCost tracker' + adCosts generated = totalCost tracker + adCosts generated'"
proof (induction items arbitrary: index generated failed tracker)
  case Nil
  then show ?case by simp
next
  case (Cons item items)
  obtain plan response where item: "item = (plan, response)"
    by (cases item)
  obtain outcome t where step:
    "scoreItem cfg request world index plan response (generated, failed, tracker) = (outcome, t)"
    by (cases "scoreItem cfg request world index plan response (generated, failed, tracker)")
  show ?case
  proof (cases outcome)
    case (Inl e)
    with Cons.prems step show ?thesis
      unfolding item by simp
  next
    case (Inr lists)
    obtain g f where lists: "lists = (g, f)"
      by (cases lists)
    from Cons.prems step Inr lists
    have rest: "scoreLoop cfg request world (Suc index) items (g, f, t) = (Inr (generated', failed'), tracker')"
      unfolding item by simp
    from step Inr lists have
      "scoreItem cfg request world index plan response (generated, failed, tracker) = (Inr (g, f), t)"
      by simp
    from scoreItem_accounts [OF this] Cons.IH [OF rest] show ?thesis
      by simp
  qed
qed

text \<open>
  The gate in the loop body of step 5, for a response that carries a video (status not
  \<open>failed\<close>, a non-empty video URL). With an overall score below 70 the body appends a
  failed-ad record with code \<open>QualityTooLow\<close> and leaves the generated ads and the cost
  tracker as they are. With a score of 70 or more (70 itself passes) and a plan that
  carries an aspect ratio it appends one generated ad and exactly one entry to the cost
  history, whose amount is the cost of the ad.
\<close>

lemma scoreItem_gate:
  assumes "res_status response \<noteq> Failed" and "res_videoUrl response = Some videoUrl"
    and "videoUrl \<noteq> []"
  shows "(overall (scoreOf world index) < 70 \<longrightarrow>
            scoreItem cfg request world index plan response (generated, failed, tracker)
              = (Inr (generated,
                      failed @ [\<lparr> failed_id = adId index,
                                  failed_error =
                                    qualityTooLowMessage (numberText world (overall (scoreOf world index))),
                                  failed_errorCode = ''QualityTooLow'',
                                  failed_prompt = plan_prompt plan \<rparr>]),
                 tracker))
       \<and> (70 \<le> overall (scoreOf world index) \<and> plan_aspectRatio plan = Some aspectRatio \<longrightarrow>
            (\<exists>ad entry.
               scoreItem cfg request world index plan response (generated, failed, tracker)
                 = (Inr (generated @ [ad], failed),
                    tracker\<lparr> totalCost := totalCost tracker + amount entry,
                             costs := costs tracker @ [entry] \<rparr>)
               \<and> ad_id ad = adId index
               \<and> ad_qualityScore ad = overall (scoreOf world index)
               \<and> md_cost (ad_metadata ad) = amount entry
               \<and> amount entry = calculateVideoCost (durationOr10 request) (resolutionOrDefault cfg)))"
proof -
  from assms have media:
    "(if res_status response = Failed then None else truthy (res_videoUrl response)) = Some videoUrl"
    by simp
  have low: "scoreItem cfg request world index plan response (generated, failed, tracker)
              = (Inr (generated,
                      failed @ [\<lparr> failed_id = adId index,
                                  failed_error =
                                    qualityTooLowMessage (numberText world (overall (scoreOf world index))),
                                  failed_errorCode = ''QualityTooLow'',
                                  failed_prompt = plan_prompt plan \<rparr>]),
                 tracker)"
    if "overall (scoreOf world index) < 70"
    using media that by (rule scoreItem_lowScore)
  have pass: "\<exists>ad entry.
               scoreItem cfg request world index plan response (generated, failed, tracker)
                 = (Inr (generated @ [ad], failed),
                    tracker\<lparr> totalCost := totalCost tracker + amount entry,
                             costs := costs tracker @ [entry] \<rparr>)
               \<and> ad_id ad = adId index
               \<and> ad_qualityScore ad = overall (scoreOf world index)
               \<and> md_cost (ad_metadata ad) = amount entry
               \<and> amount entry = calculateVideoCost (durationOr10 request) (resolutionOrDefault cfg)"
    if "70 \<le> overall (scoreOf world index)" "plan_aspectRatio plan = Some aspectRatio"
  proof -
    let ?cost = "calculateVideoCost (durationOr10 request) (resolutionOrDefault cfg)"
    let ?ad = "generatedAdOf cfg request index plan response videoUrl aspectRatio (scoreOf world index) ?cost"
    let ?entry = "\<lparr> timestamp = recordedAt world index, amount = ?cost,
                    description = ''Ad '' @ showNat (index + 1) @ '' generated'' \<rparr>"
    from that have "\<not> overall (scoreOf world index) < 70" by simp
    from scoreItem_passed [OF media this that(2)]
    have "scoreItem cfg request world index plan response (generated, failed, tracker)
                 = (Inr (generated @ [?ad], failed),
                    tracker\<lparr> totalCost := totalCost tracker + amount ?entry,
                             costs := costs tracker @ [?entry] \<rparr>)"
      by (simp add: recordCost_def Let_def)
    moreover have "ad_id ?ad = adId index" "ad_qualityScore ?ad = overall (scoreOf world index)"
      "md_cost (ad_metadata ?ad) = amount ?entry" "amount ?entry = ?cost"
      by (simp_all add: generatedAdOf_def)
    ultimately show ?thesis by blast
  qed
  from low pass show ?thesis by blast
qed

text \<open>The example request and configuration: one style, one aspect ratio, 10 s at 1080p.\<close>

lemma example_cost:
  "calculateVideoCost (durationOr10 (adsRequest n)) (resolutionOrDefault plainConfig) = 10"
  by (simp add: calculateVideoCost_def durationOr10_def adsRequest_def resolutionOrDefault_def
      plainConfig_def SORA2_PRICING_minimumCharge_def)

lemma example_plan:
  "plan_aspectRatio (planAt (adsRequest n) i) = Some AR_9_16"
  "plan_ugcStyle (planAt (adsRequest n) i) = Casual"
  by (simp_all add: planAt_def adsRequest_def allStylesOf_def)

lemma scoreItem_gate_example:
  "res_status completedResponse \<noteq> Failed
   \<and> res_videoUrl completedResponse = Some ''https://cdn/v.mp4''
   \<and> overall (scoreOf (gatesPassed 69) 0) < 70
   \<and> scoreItem plainConfig (adsRequest 1) (gatesPassed 69) 0 (planAt (adsRequest 1) 0) completedResponse
         ([], [], newCostTracker 5000)
       = (Inr ([], [\<lparr> failed_id = ''ad-001'',
                         failed_error = qualityTooLowMessage ''69'',
                         failed_errorCode = ''QualityTooLow'',
                         failed_prompt = plan_prompt (planAt (adsRequest 1) 0) \<rparr>]),
          newCostTracker 5000)
   \<and> 70 \<le> overall (scoreOf (gatesPassed 70) 0)
   \<and> plan_aspectRatio (planAt (adsRequest 1) 0) = Some AR_9_16
   \<and> (\<exists>ad entry.
         scoreItem plainConfig (adsRequest 1) (gatesPassed 70) 0 (planAt (adsRequest 1) 0) completedResponse
             ([], [], newCostTracker 5000)
           = (Inr ([ad], []), \<lparr> totalCost = 10, monthlyBudget = 5000, costs = [entry] \<rparr>)
         \<and> ad_id ad = ''ad-001'' \<and> ad_qualityScore ad = 70 \<and> md_cost (ad_metadata ad) = 10
         \<and> amount entry = 10)"
proof -
  have status: "res_status completedResponse \<noteq> Failed"
    and url: "res_videoUrl completedResponse = Some ''https://cdn/v.mp4''"
    by (simp_all add: completedResponse_def)
  have nonempty: "''https://cdn/v.mp4'' \<noteq> []"
    by simp
  have low: "overall (scoreOf (gatesPassed 69) 0) < 70"
    and high: "70 \<le> overall (scoreOf (gatesPassed 70) 0)"
    by (simp_all add: gatesPassed_def scored_def)
  have ident: "adId 0 = ''ad-001''"
    by code_simp
  have "showInt 69 = ''69''"
    by code_simp
  then have shown: "numberText (gatesPassed 69) (overall (scoreOf (gatesPassed 69) 0)) = ''69''"
    by (simp add: gatesPassed_def scored_def)
  note gate = scoreItem_gate [OF status url nonempty, where index = 0 and cfg = plainConfig
      and request = "adsRequest 1" and plan = "planAt (adsRequest 1) 0" and generated = "[]"
      and failed = "[]" and tracker = "newCostTracker 5000" and aspectRatio = AR_9_16]
  from gate [where world = "gatesPassed 69"] low
  have rejected:
    "scoreItem plainConfig (adsRequest 1) (gatesPassed 69) 0 (planAt (adsRequest 1) 0) completedResponse
         ([], [], newCostTracker 5000)
       = (Inr ([], [\<lparr> failed_id = ''ad-001'',
                         failed_error = qualityTooLowMessage ''69'',
                         failed_errorCode = ''QualityTooLow'',
                         failed_prompt = plan_prompt (planAt (adsRequest 1) 0) \<rparr>]),
          newCostTracker 5000)"
    by (simp add: ident shown)
  from gate [where world = "gatesPassed 70"] high example_plan(1) [of 1 0]
  obtain ad entry where
    "scoreItem plainConfig (adsRequest 1) (gatesPassed 70) 0 (planAt (adsRequest 1) 0) completedResponse
         ([], [], newCostTracker 5000)
       = (Inr ([] @ [ad], []),
          (newCostTracker 5000)\<lparr> totalCost := totalCost (newCostTracker 5000) + amount entry,
                                   costs := costs (newCostTracker 5000) @ [entry] \<rparr>)"
    "ad_id ad = adId 0" "ad_qualityScore ad = overall (scoreOf (gatesPassed 70) 0)"
    "md_cost (ad_metadata ad) = amount entry"
    "amount entry = calculateVideoCost (durationOr10 (adsRequest 1)) (resolutionOrDefault plainConfig)"
    by blast
  then have accepted: "\<exists>ad entry.
         scoreItem plainConfig (adsRequest 1) (gatesPassed 70) 0 (planAt (adsRequest 1) 0) completedResponse
             ([], [], newCostTracker 5000)
           = (Inr ([ad], []), \<lparr> totalCost = 10, monthlyBudget = 5000, costs = [entry] \<rparr>)
         \<and> ad_id ad = ''ad-001'' \<and> ad_qualityScore ad = 70 \<and> md_cost (ad_metadata ad) = 10
         \<and> amount entry = 10"
    by (intro exI [of _ ad] exI [of _ entry])
       (simp add: ident example_cost newCostTracker_def gatesPassed_def scored_def)
  from status url low rejected high example_plan(1) [of 1 0] accepted show ?thesis
    by blast
qed

text \<open>What a call that returns a result went through.\<close>

lemma generate_returned:
  assumes "UGCAdGenerator_generate gen request world = Some (Inr result, gen')"
  obtains generationPlan sora2Responses tracker' where
    "scoreLoop (gen_config gen) request world 0 (zip generationPlan sora2Responses)
       ([], [], gen_costTracker gen) = (Inr (generatedAds result, failedAds result), tracker')"
    "result_totalCost result = getTotalCost tracker'"
    "gen' = gen\<lparr> gen_costTracker := tracker' \<rparr>"
    "createGenerationPlan request = Inr generationPlan"
    "Sora2APIClient_generateBatch (retryConfigOrDefault (gen_config gen)) (itemWorld world)
       (map (planRequest (gen_config gen) request) generationPlan) 3 = Some (Inr sora2Responses)"
proof -
  from assms have valid: "isValid (validationResult world)" "isCompliant (policyCheckResult world)"
    by (auto simp: UGCAdGenerator_generate_def split: if_splits)
  from assms valid obtain generationPlan where plan: "createGenerationPlan request = Inr generationPlan"
    by (cases "createGenerationPlan request") (auto simp: UGCAdGenerator_generate_def)
  from assms valid plan obtain sora2Responses where batch:
    "Sora2APIClient_generateBatch (retryConfigOrDefault (gen_config gen)) (itemWorld world)
       (map (planRequest (gen_config gen) request) generationPlan) 3 = Some (Inr sora2Responses)"
    by (auto simp: UGCAdGenerator_generate_def split: option.splits sum.splits)
  obtain outcome tracker' where loop:
    "scoreLoop (gen_config gen) request world 0 (zip generationPlan sora2Responses)
       ([], [], gen_costTracker gen) = (outcome, tracker')"
    by (cases "scoreLoop (gen_config gen) request world 0 (zip generationPlan sora2Responses)
       ([], [], gen_costTracker gen)")
  from assms valid plan batch loop obtain generated failed where "outcome = Inr (generated, failed)"
    by (cases outcome) (auto simp: UGCAdGenerator_generate_def)
  with assms valid plan batch loop that show ?thesis
    by (auto simp: UGCAdGenerator_generate_def)
qed

text \<open>
  C2, as the code has it: the \<open>totalCost\<close> of a returned result is the running total of
  the instance's cost tracker when the call returns, that is the total at the start of
  the call plus the costs of the ads generated during the call. It is the sum of the
  costs of this call alone only when the tracker stood at zero at the start.
\<close>

theorem generate_totalCost:
  assumes "UGCAdGenerator_generate gen request world = Some (Inr result, gen')"
  shows "result_totalCost result
           = getTotalCost (gen_costTracker gen) + adCosts (generatedAds result)
       \<and> result_totalCost result = getTotalCost (gen_costTracker gen')"
proof -
  from assms obtain generationPlan sora2Responses tracker' where
    loop: "scoreLoop (gen_config gen) request world 0 (zip generationPlan sora2Responses)
       ([], [], gen_costTracker gen) = (Inr (generatedAds result, failedAds result), tracker')"
    and total: "result_totalCost result = getTotalCost tracker'"
    and gen': "gen' = gen\<lparr> gen_costTracker := tracker' \<rparr>"
    by (rule generate_returned)
  from scoreLoop_accounts [OF loop] total gen' show ?thesis
    by (simp add: getTotalCost_def adCosts_def)
qed

text \<open>The example items and batches, evaluated.\<close>

lemma withRetry_first_try:
  "0 \<le> maxRetries config \<Longrightarrow> fn 0 = Inr v \<Longrightarrow> fst (withRetry fn config ctx) = Inr v"
  using withRetryLoop_returned [where fn = fn and a = 0 and config = config and v = v and ctx = ctx and lastError = None]
  by (simp add: withRetry_def)

lemma item_completing:
  "Sora2APIClient_generate defaultRetryConfig completingItem request = Inr completedResponse"
proof -
  have "fst (withRetry (\<lambda>k. submitOnce (submitReply completingItem k)) defaultRetryConfig
              ''Sora2 API generateVideo'') = Inr (Some ''job-1'', None)"
    by (rule withRetry_first_try) (simp_all add: defaultRetryConfig_def completingItem_def)
  then have "generateVideo defaultRetryConfig completingItem request = Inr ''job-1''"
    by (simp add: generateVideo_def)
  then show ?thesis
    by (simp add: Sora2APIClient_generate_def completingItem_def run_completed completedResponse_def)
qed

lemma item_failing:
  "Sora2APIClient_generate defaultRetryConfig failingItem request
     = Inl (newError ''GenerationFailed: moderation'')"
proof -
  have "fst (withRetry (\<lambda>k. submitOnce (submitReply failingItem k)) defaultRetryConfig
              ''Sora2 API generateVideo'') = Inr (None, Some ''job-2'')"
    by (rule withRetry_first_try) (simp_all add: defaultRetryConfig_def failingItem_def)
  then have "generateVideo defaultRetryConfig failingItem request = Inr ''job-2''"
    by (simp add: generateVideo_def)
  then show ?thesis
    by (simp add: Sora2APIClient_generate_def failingItem_def run_failed)
qed

lemma splitBatches_one:
  "requests \<noteq> [] \<Longrightarrow> length requests \<le> concurrency \<Longrightarrow> splitBatches concurrency requests = [requests]"
  by (subst splitBatches.simps, cases concurrency, simp, simp, subst splitBatches.simps, simp)

lemma batch_of_two:
  "Sora2APIClient_generateBatch defaultRetryConfig (itemWorld (gatesPassed points)) [first, second] 3
     = Some (Inl (newError ''GenerationFailed: moderation''))"
proof -
  have worlds: "itemWorld (gatesPassed points) 0 = completingItem"
    "itemWorld (gatesPassed points) (Suc 0) = failingItem"
    by (simp_all add: gatesPassed_def)
  have "promiseAll [(settledAt completingItem, Inr completedResponse),
                     (settledAt failingItem, Inl (newError ''GenerationFailed: moderation''))]
      = Inl (newError ''GenerationFailed: moderation'')"
    by (simp add: promiseAll_def)
  then show ?thesis
    by (simp add: Sora2APIClient_generateBatch_def splitBatches_one worlds item_completing item_failing)
qed

lemma batch_of_one:
  "Sora2APIClient_generateBatch defaultRetryConfig (itemWorld (gatesPassed points)) [first] 3
     = Some (Inr [completedResponse])"
proof -
  have worlds: "itemWorld (gatesPassed points) 0 = completingItem"
    by (simp add: gatesPassed_def)
  have "promiseAll [(settledAt completingItem, Inr completedResponse)] = Inr [completedResponse]"
    by (simp add: promiseAll_def)
  then show ?thesis
    by (simp add: Sora2APIClient_generateBatch_def splitBatches_one worlds item_completing)
qed

lemma example_plans:
  "createGenerationPlan (adsRequest n) = Inr (map (planAt (adsRequest n)) [0 ..< n])"
  using planLoop_closed [of "adsRequest n" 0 "[]"]
  by (simp add: createGenerationPlan_def adsRequest_def allStylesOf_def)

lemma example_gates:
  "isValid (validationResult (gatesPassed points))" "isCompliant (policyCheckResult (gatesPassed points))"
  "retryConfigOrDefault plainConfig = defaultRetryConfig"
  by (simp_all add: gatesPassed_def retryConfigOrDefault_def plainConfig_def)

text \<open>The run of two ads of which the second job fails, and its first item.\<close>

lemma generate_two_ads:
  "UGCAdGenerator_generate (newUGCAdGenerator plainConfig) (adsRequest 2) (gatesPassed points)
     = Some (Inl (newError ''GenerationFailed: moderation''), newUGCAdGenerator plainConfig)"
proof -
  have two: "[0 ..< 2] = [0, Suc 0]"
    by (simp add: upt_conv_Cons)
  show ?thesis
    by (simp add: UGCAdGenerator_generate_def example_gates example_plans two batch_of_two
        newUGCAdGenerator_def)
qed

lemma first_ad_completes:
  "Sora2APIClient_generate defaultRetryConfig (itemWorld (gatesPassed points) 0)
        (planRequest plainConfig (adsRequest 2) (planAt (adsRequest 2) 0))
     = Inr completedResponse"
  by (simp add: gatesPassed_def item_completing)

text \<open>
  C1, evaluated on the code: a request for two ads whose source video passes validation
  and the policy check; the job of the first ad completes, the remote service reports the
  job of the second ad as \<open>failed\<close>. \<open>pollJobStatus\<close> throws for that job, nothing
  between it and \<open>Promise.all\<close> catches, and \<open>generate\<close> throws the \<open>GenerationFailed\<close>
  error: no result is returned, and the completed first ad is lost with it.
\<close>

theorem failed_job_aborts_run:
  "UGCAdGenerator_generate (newUGCAdGenerator plainConfig) (adsRequest 2) (gatesPassed 85)
     = Some (Inl (newError ''GenerationFailed: moderation''), newUGCAdGenerator plainConfig)
   \<and> fst (pollJobStatus (pollWorld failingItem) ''job-2'' (pollStart failingItem))
     = Inl (newError ''GenerationFailed: moderation'')
   \<and> Sora2APIClient_generate defaultRetryConfig (itemWorld (gatesPassed 85) 0)
        (planRequest plainConfig (adsRequest 2) (planAt (adsRequest 2) 0))
     = Inr completedResponse"
proof -
  have "fst (pollJobStatus (pollWorld failingItem) ''job-2'' (pollStart failingItem))
     = Inl (newError ''GenerationFailed: moderation'')"
    by (simp add: failingItem_def run_failed)
  with generate_two_ads [of 85] first_ad_completes [of 85] show ?thesis
    by blast
qed


text \<open>A call for one ad that succeeds, on an instance with the example configuration.\<close>

lemma generate_one_ad:
  assumes "gen_config gen = plainConfig"
  shows "UGCAdGenerator_generate gen (adsRequest 1) (gatesPassed 85)
     = Some (Inr \<lparr> generatedAds =
                      [generatedAdOf plainConfig (adsRequest 1) 0 (planAt (adsRequest 1) 0)
                         completedResponse ''https://cdn/v.mp4'' AR_9_16 (scored 85) 10],
                    failedAds = [],
                    totalDuration = 30,
                    result_totalCost = totalCost (gen_costTracker gen) + 10 \<rparr>,
             gen\<lparr> gen_costTracker :=
                    fst (recordCost 30000 10 (''Ad '' @ showNat (0 + 1) @ '' generated'')
                           (gen_costTracker gen)) \<rparr>)"
proof -
  have one: "[0 ..< 1] = [0::nat]"
    by simp
  have media: "(if res_status completedResponse = Failed then None
                else truthy (res_videoUrl completedResponse)) = Some ''https://cdn/v.mp4''"
    by (simp add: completedResponse_def)
  have score: "\<not> overall (scoreOf (gatesPassed 85) 0) < 70" "scoreOf (gatesPassed 85) 0 = scored 85"
    "recordedAt (gatesPassed 85) 0 = 30000"
    by (simp_all add: gatesPassed_def scored_def)
  have item: "scoreItem plainConfig (adsRequest 1) (gatesPassed 85) 0 (planAt (adsRequest 1) 0)
        completedResponse ([], [], gen_costTracker gen)
      = (Inr ([generatedAdOf plainConfig (adsRequest 1) 0 (planAt (adsRequest 1) 0)
                 completedResponse ''https://cdn/v.mp4'' AR_9_16 (scored 85) 10], []),
         fst (recordCost 30000 10 (''Ad '' @ showNat (0 + 1) @ '' generated'') (gen_costTracker gen)))"
    using scoreItem_passed [OF media score(1) example_plan(1) [of 1 0], of plainConfig "adsRequest 1"
        "[]" "[]" "gen_costTracker gen"]
    by (simp only: example_cost score append_Nil)
  have loop: "scoreLoop plainConfig (adsRequest 1) (gatesPassed 85) 0
        [(planAt (adsRequest 1) 0, completedResponse)] ([], [], gen_costTracker gen)
      = (Inr ([generatedAdOf plainConfig (adsRequest 1) 0 (planAt (adsRequest 1) 0)
                 completedResponse ''https://cdn/v.mp4'' AR_9_16 (scored 85) 10], []),
         fst (recordCost 30000 10 (''Ad '' @ showNat (0 + 1) @ '' generated'') (gen_costTracker gen)))"
    by (simp only: scoreLoop.simps item prod.case sum.case)
  have clock: "(real (finishedAt (gatesPassed 85)) - real (startedAt (gatesPassed 85))) / 1000 = 30"
    by (simp add: gatesPassed_def)
  have total: "getTotalCost (fst (recordCost 30000 10 (''Ad '' @ showNat (0 + 1) @ '' generated'')
        (gen_costTracker gen))) = totalCost (gen_costTracker gen) + 10"
    by (simp add: getTotalCost_def recordCost_def Let_def)
  show ?thesis
    unfolding UGCAdGenerator_generate_def
    by (simp only: assms example_gates example_plans one list.map batch_of_one zip.simps
        list.case loop clock total if_False if_True not_True_eq_False not_False_eq_True
        sum.case option.case prod.case simp_thms)
qed

lemma example_adCosts:
  "adCosts [generatedAdOf cfg request index plan response videoUrl aspectRatio qualityScore cost] = cost"
  by (simp add: adCosts_def generatedAdOf_def)

theorem generate_totalCost_witness:
  "\<exists>result gen'.
      UGCAdGenerator_generate usedGenerator (adsRequest 1) (gatesPassed 85) = Some (Inr result, gen')
      \<and> getTotalCost (gen_costTracker usedGenerator) = 10
      \<and> adCosts (generatedAds result) = 10
      \<and> result_totalCost result = 20
      \<and> getTotalCost (gen_costTracker gen') = 20"
proof -
  have cfg: "gen_config usedGenerator = plainConfig"
    and before: "getTotalCost (gen_costTracker usedGenerator) = 10"
    by (simp_all add: usedGenerator_def getTotalCost_def)
  from generate_one_ad [OF cfg] obtain result gen' where
    run: "UGCAdGenerator_generate usedGenerator (adsRequest 1) (gatesPassed 85) = Some (Inr result, gen')"
    and ads: "generatedAds result =
         [generatedAdOf plainConfig (adsRequest 1) 0 (planAt (adsRequest 1) 0)
            completedResponse ''https://cdn/v.mp4'' AR_9_16 (scored 85) 10]"
    by simp
  from ads have delta: "adCosts (generatedAds result) = 10"
    by (simp only: example_adCosts)
  from generate_totalCost [OF run] before delta
  have "result_totalCost result = 20" "getTotalCost (gen_costTracker gen') = 20"
    by simp_all
  with run before delta show ?thesis
    by blast
qed

text \<open>
  C2 as stated fails: two calls for one ad each on a fresh instance, both succeeding at a
  cost of 10. The first result reports a total cost of 10, the second reports 20 although
  the ads of the second call cost 10.
\<close>

theorem totalCost_is_lifetime_total:
  "map_option (map (map_sum id (\<lambda>result. (result_totalCost result, adCosts (generatedAds result)))))
     (generateCalls (newUGCAdGenerator plainConfig)
        [(adsRequest 1, gatesPassed 85), (adsRequest 1, gatesPassed 85)])
   = Some [Inr (10, 10), Inr (20, 10)]"
proof -
  let ?gen = "newUGCAdGenerator plainConfig"
  let ?gen' = "?gen\<lparr> gen_costTracker :=
                    fst (recordCost 30000 10 (''Ad '' @ showNat (0 + 1) @ '' generated'')
                           (gen_costTracker ?gen)) \<rparr>"
  have cfg: "gen_config ?gen = plainConfig" "gen_config ?gen' = plainConfig"
    by (simp_all add: newUGCAdGenerator_def)
  have totals: "totalCost (gen_costTracker ?gen) = 0" "totalCost (gen_costTracker ?gen') = 10"
    by (simp_all add: newUGCAdGenerator_def newCostTracker_def recordCost_def Let_def)
  show ?thesis
    by (simp only: generateCalls.simps generate_one_ad [OF cfg(1)] generate_one_ad [OF cfg(2)]
          option.case prod.case option.map list.map map_sum.simps UGCAdGenerationResult.simps
          example_adCosts totals id_apply)
       simp
qed

text \<open>How many plans, responses and records a call that returns has gone through.\<close>

lemma planLoop_length:
  "planLoop request allStyles i plan = Inr plans
   \<Longrightarrow> length plans = length plan + (numberOfAds request - i)"
proof (induction request allStyles i plan rule: planLoop.induct)
  case (1 request allStyles i plan)
  show ?case
  proof (cases "i < numberOfAds request")
    case False
    with "1.prems" show ?thesis
      by (subst (asm) planLoop.simps) auto
  next
    case True
    with "1.prems" obtain style where style: "roundRobin allStyles i = Some style"
      by (subst (asm) planLoop.simps) (auto split: option.splits)
    from "1.prems" True style "1.IH" [OF True style refl refl] show ?thesis
      by (subst (asm) planLoop.simps) (auto simp: Let_def)
  qed
qed

lemma firstRejection_None: "firstRejection settled = None \<Longrightarrow> length (fulfilled settled) = length settled"
  by (induction settled rule: firstRejection.induct) (auto split: option.splits if_splits)

lemma promiseAll_length: "promiseAll settled = Inr values \<Longrightarrow> length values = length settled"
  by (auto simp: promiseAll_def firstRejection_None split: option.splits)

lemma runBatches_length:
  "runBatches batches results = Inr final \<Longrightarrow> length final = length results + length (concat batches)"
proof (induction batches arbitrary: results)
  case Nil
  then show ?case by simp
next
  case (Cons batch batches)
  from Cons.prems obtain batchResults where
    batch: "promiseAll batch = Inr batchResults"
    and rest: "runBatches batches (results @ batchResults) = Inr final"
    by (auto split: sum.splits)
  from Cons.IH [OF rest] promiseAll_length [OF batch] show ?case
    by simp
qed

lemma concat_splitBatches: "0 < concurrency \<Longrightarrow> concat (splitBatches concurrency requests) = requests"
proof (induction concurrency requests rule: splitBatches.induct)
  case (1 concurrency requests)
  show ?case
  proof (cases "requests = []")
    case True
    then show ?thesis by (subst splitBatches.simps) simp
  next
    case False
    with "1.prems" "1.IH" show ?thesis
      by (subst splitBatches.simps) simp
  qed
qed

lemma generateBatch_length:
  assumes "Sora2APIClient_generateBatch retryConfig worlds requests 3 = Some (Inr responses)"
  shows "length responses = length requests"
proof -
  let ?settled = "map (\<lambda>(i, request).
                        (settledAt (worlds i), Sora2APIClient_generate retryConfig (worlds i) request))
                     (enumerate 0 requests)"
  from assms have "runBatches (splitBatches 3 ?settled) [] = Inr responses"
    by (simp add: Sora2APIClient_generateBatch_def)
  from runBatches_length [OF this] have "length responses = length (concat (splitBatches 3 ?settled))"
    by simp
  also have "concat (splitBatches 3 ?settled) = ?settled"
    by (rule concat_splitBatches) simp
  finally show ?thesis
    by simp
qed

lemma scoreItem_one_record:
  assumes "scoreItem cfg request world index plan response (generated, failed, tracker)
     = (Inr (generated', failed'), tracker')"
  shows "length generated' + length failed' = Suc (length generated + length failed)"
proof (cases "if res_status response = Failed then None else truthy (res_videoUrl response)")
  case None
  from assms show ?thesis
    unfolding scoreItem_noMedia [OF None] by auto
next
  case (Some videoUrl)
  show ?thesis
  proof (cases "overall (scoreOf world index) < 70")
    case True
    from assms show ?thesis
      unfolding scoreItem_lowScore [OF Some True] by auto
  next
    case False
    show ?thesis
    proof (cases "plan_aspectRatio plan")
      case None
      from assms scoreItem_undefinedAspect [OF Some False None, of cfg request generated failed tracker]
      show ?thesis by simp
    next
      case (Some aspectRatio)
      from assms have "generated @
                 [generatedAdOf cfg request index plan response videoUrl aspectRatio
                    (scoreOf world index)
                    (calculateVideoCost (durationOr10 request) (resolutionOrDefault cfg))]
             = generated'" and "failed = failed'"
        unfolding scoreItem_passed [OF \<open>_ = Some videoUrl\<close> False Some] by blast+
      then have "length generated' = Suc (length generated)" and "length failed' = length failed"
        by (metis length_append_singleton, simp)
      then show ?thesis by simp
    qed
  qed
qed

lemma scoreLoop_one_record_each:
  "scoreLoop cfg request world index items (generated, failed, tracker)
     = (Inr (generated', failed'), tracker')
   \<Longrightarrow> length generated' + length failed' = length generated + length failed + length items"
proof (induction items arbitrary: index generated failed tracker)
  case Nil
  then show ?case by simp
next
  case (Cons item items)
  obtain plan response where item: "item = (plan, response)"
    by (cases item)
  obtain outcome t where step:
    "scoreItem cfg request world index plan response (generated, failed, tracker) = (outcome, t)"
    by (cases "scoreItem cfg request world index plan response (generated, failed, tracker)")
  show ?case
  proof (cases outcome)
    case (Inl e)
    with Cons.prems step show ?thesis
      unfolding item by simp
  next
    case (Inr lists)
    obtain g f where lists: "lists = (g, f)"
      by (cases lists)
    from Cons.prems step Inr lists
    have rest: "scoreLoop cfg request world (Suc index) items (g, f, t) = (Inr (generated', failed'), tracker')"
      unfolding item by simp
    from step Inr lists have
      "scoreItem cfg request world index plan response (generated, failed, tracker) = (Inr (g, f), t)"
      by simp
    from scoreItem_one_record [OF this] Cons.IH [OF rest] show ?thesis
      by simp
  qed
qed

text \<open>
  A result that \<open>generate\<close> does return holds one record, generated or failed, for each
  of the \<open>numberOfAds\<close> items.
\<close>

lemma generate_enumerates:
  assumes "UGCAdGenerator_generate gen request world = Some (Inr result, gen')"
  shows "length (generatedAds result) + length (failedAds result) = numberOfAds request"
proof -
  from assms obtain generationPlan sora2Responses tracker' where
    loop: "scoreLoop (gen_config gen) request world 0 (zip generationPlan sora2Responses)
       ([], [], gen_costTracker gen) = (Inr (generatedAds result, failedAds result), tracker')"
    and plan: "createGenerationPlan request = Inr generationPlan"
    and batch: "Sora2APIClient_generateBatch (retryConfigOrDefault (gen_config gen)) (itemWorld world)
       (map (planRequest (gen_config gen) request) generationPlan) 3 = Some (Inr sora2Responses)"
    by (rule generate_returned)
  from plan have "length generationPlan = numberOfAds request"
    using planLoop_length [of request "allStylesOf request" 0 "[]" generationPlan]
    by (simp add: createGenerationPlan_def)
  moreover from generateBatch_length [OF batch] have "length sora2Responses = length generationPlan"
    by simp
  ultimately show ?thesis
    using scoreLoop_one_record_each [OF loop] by simp
qed

section \<open>The quality gate in the result of a call\<close>

lemma numbered_Nil: "numbered index [] = []"
  by (simp add: numbered_def)

lemma numbered_Cons: "numbered index (item # items) = (index, item) # numbered (Suc index) items"
proof -
  have "[index ..< index + Suc (length items)] = index # [Suc index ..< Suc index + length items]"
    by (subst upt_rec) simp
  then show ?thesis
    by (simp add: numbered_def)
qed

text \<open>The record of an item that does not pass the gate, by the reason.\<close>

lemma failedAdFor_noMedia:
  "mediaOf response = None
   \<Longrightarrow> failedAdFor world (index, plan, response)
       = \<lparr> failed_id = adId index,
           failed_error = orElse (res_error response) generationFailedText,
           failed_errorCode = ''GenerationFailed'',
           failed_prompt = plan_prompt plan \<rparr>"
  by (simp add: failedAdFor_def)

lemma failedAdFor_lowScore:
  "mediaOf response = Some videoUrl
   \<Longrightarrow> failedAdFor world (index, plan, response)
       = \<lparr> failed_id = adId index,
           failed_error = qualityTooLowMessage (numberText world (overall (scoreOf world index))),
           failed_errorCode = ''QualityTooLow'',
           failed_prompt = plan_prompt plan \<rparr>"
  by (simp add: failedAdFor_def)

text \<open>One run of the loop body that does not throw, in terms of the gate.\<close>

lemma scoreItem_records:
  assumes "scoreItem cfg request world index plan response (generated, failed, tracker)
     = (Inr (generated', failed'), tracker')"
  shows "(passesGate world (index, plan, response) \<longrightarrow>
            plan_aspectRatio plan \<noteq> None
          \<and> generated' = generated @ [generatedAdFor cfg request world (index, plan, response)]
          \<and> failed' = failed
          \<and> costs tracker' = costs tracker @ [costEntryFor cfg request world (index, plan, response)])
       \<and> (\<not> passesGate world (index, plan, response) \<longrightarrow>
            generated' = generated
          \<and> failed' = failed @ [failedAdFor world (index, plan, response)]
          \<and> tracker' = tracker)"
proof (cases "if res_status response = Failed then None else truthy (res_videoUrl response)")
  case None
  then have gate: "\<not> passesGate world (index, plan, response)" "mediaOf response = None"
    by (simp_all add: passesGate_def mediaOf_def)
  from assms have "generated = generated'"
    "failed @ [\<lparr> failed_id = adId index,
                 failed_error = orElse (res_error response) generationFailedText,
                 failed_errorCode = ''GenerationFailed'',
                 failed_prompt = plan_prompt plan \<rparr>] = failed'"
    "tracker = tracker'"
    unfolding scoreItem_noMedia [OF None] by blast+
  then have "generated' = generated"
    "failed' = failed @ [failedAdFor world (index, plan, response)]"
    "tracker' = tracker"
    unfolding failedAdFor_noMedia [OF gate(2)] by blast+
  with gate(1) show ?thesis
    by blast
next
  case (Some videoUrl)
  note video = Some
  then have media: "mediaOf response = Some videoUrl"
    by (simp add: mediaOf_def)
  show ?thesis
  proof (cases "overall (scoreOf world index) < 70")
    case True
    with media have gate: "\<not> passesGate world (index, plan, response)"
      by (simp add: passesGate_def)
    from assms have "generated = generated'"
      "failed @ [\<lparr> failed_id = adId index,
                   failed_error = qualityTooLowMessage (numberText world (overall (scoreOf world index))),
                   failed_errorCode = ''QualityTooLow'',
                   failed_prompt = plan_prompt plan \<rparr>] = failed'"
      "tracker = tracker'"
      unfolding scoreItem_lowScore [OF video True] by blast+
    then have "generated' = generated"
      "failed' = failed @ [failedAdFor world (index, plan, response)]"
      "tracker' = tracker"
      unfolding failedAdFor_lowScore [OF media] by blast+
    with gate show ?thesis
      by blast
  next
    case False
    with media have gate: "passesGate world (index, plan, response)"
      by (simp add: passesGate_def)
    show ?thesis
    proof (cases "plan_aspectRatio plan")
      case None
      from assms scoreItem_undefinedAspect [OF video False None, of cfg request generated failed tracker]
      show ?thesis by simp
    next
      case (Some aspectRatio)
      have ad: "generatedAdFor cfg request world (index, plan, response)
          = generatedAdOf cfg request index plan response videoUrl aspectRatio (scoreOf world index)
              (calculateVideoCost (durationOr10 request) (resolutionOrDefault cfg))"
        by (simp add: generatedAdFor_def media Some)
      have entry: "costs (fst (recordCost (recordedAt world index)
                     (calculateVideoCost (durationOr10 request) (resolutionOrDefault cfg))
                     (''Ad '' @ showNat (index + 1) @ '' generated'') tracker))
          = costs tracker @ [costEntryFor cfg request world (index, plan, response)]"
        by (simp add: recordCost_def Let_def costEntryFor_def)
      from assms have "generated @
                 [generatedAdOf cfg request index plan response videoUrl aspectRatio
                    (scoreOf world index)
                    (calculateVideoCost (durationOr10 request) (resolutionOrDefault cfg))]
             = generated'"
        "failed = failed'"
        "fst (recordCost (recordedAt world index)
                 (calculateVideoCost (durationOr10 request) (resolutionOrDefault cfg))
                 (''Ad '' @ showNat (index + 1) @ '' generated'') tracker) = tracker'"
        unfolding scoreItem_passed [OF video False Some] by blast+
      note out = this
      have "generated' = generated @ [generatedAdFor cfg request world (index, plan, response)]"
        unfolding ad using out(1) by (rule sym)
      moreover have "failed' = failed"
        using out(2) by (rule sym)
      moreover have "costs tracker' = costs tracker @ [costEntryFor cfg request world (index, plan, response)]"
        unfolding out(3) [symmetric] by (rule entry)
      moreover from Some have "plan_aspectRatio plan \<noteq> None"
        by simp
      ultimately show ?thesis
        using gate by blast
    qed
  qed
qed

text \<open>
  The loop of step 5, when it runs through: the generated ads and the new cost entries
  are those of the items that pass the gate, one each and in order, and the failed ads
  are those of the other items.
\<close>

lemma scoreLoop_records:
  "scoreLoop cfg request world index items (generated, failed, tracker)
     = (Inr (generated', failed'), tracker')
   \<Longrightarrow> generated' = generated @ map (generatedAdFor cfg request world)
                                   (filter (passesGate world) (numbered index items))
     \<and> failed' = failed @ map (failedAdFor world)
                             (filter (\<lambda>item. \<not> passesGate world item) (numbered index items))
     \<and> costs tracker' = costs tracker @ map (costEntryFor cfg request world)
                                           (filter (passesGate world) (numbered index items))
     \<and> (\<forall>(i, plan, response) \<in> set (filter (passesGate world) (numbered index items)).
           plan_aspectRatio plan \<noteq> None)"
proof (induction items arbitrary: index generated failed tracker)
  case Nil
  then show ?case by (simp add: numbered_Nil)
next
  case (Cons item items)
  obtain plan response where item: "item = (plan, response)"
    by (cases item)
  obtain outcome t where step:
    "scoreItem cfg request world index plan response (generated, failed, tracker) = (outcome, t)"
    by (cases "scoreItem cfg request world index plan response (generated, failed, tracker)")
  show ?case
  proof (cases outcome)
    case (Inl e)
    with Cons.prems step show ?thesis
      unfolding item by simp
  next
    case (Inr lists)
    obtain g f where lists: "lists = (g, f)"
      by (cases lists)
    from Cons.prems step Inr lists
    have rest: "scoreLoop cfg request world (Suc index) items (g, f, t) = (Inr (generated', failed'), tracker')"
      unfolding item by simp
    from step Inr lists have
      body: "scoreItem cfg request world index plan response (generated, failed, tracker) = (Inr (g, f), t)"
      by simp
    note after = Cons.IH [OF rest]
    show ?thesis
    proof (cases "passesGate world (index, plan, response)")
      case True
      with scoreItem_records [OF body] have
        "plan_aspectRatio plan \<noteq> None"
        "g = generated @ [generatedAdFor cfg request world (index, plan, response)]"
        "f = failed"
        "costs t = costs tracker @ [costEntryFor cfg request world (index, plan, response)]"
        by simp_all
      with after True show ?thesis
        unfolding item numbered_Cons by simp
    next
      case False
      with scoreItem_records [OF body] have
        "g = generated" "f = failed @ [failedAdFor world (index, plan, response)]" "t = tracker"
        by simp_all
      with after False show ?thesis
        unfolding item numbered_Cons by simp
    qed
  qed
qed

text \<open>
  The gate in the result of \<open>generate\<close>. A call that returns a result has one plan and
  one response for each of the \<open>numberOfAds\<close> items. The items that pass the gate (a
  video and a score of 70 or more) are the generated ads, one record each, and the cost
  entries appended during the call, one entry each. All other items are the failed ads,
  one record each: code \<open>QualityTooLow\<close> with a video, \<open>GenerationFailed\<close> without.
\<close>

lemma generate_quality_gate:
  assumes "UGCAdGenerator_generate gen request world = Some (Inr result, gen')"
  shows "\<exists>plans responses.
      createGenerationPlan request = Inr plans
    \<and> Sora2APIClient_generateBatch (retryConfigOrDefault (gen_config gen)) (itemWorld world)
         (map (planRequest (gen_config gen) request) plans) 3 = Some (Inr responses)
    \<and> length plans = numberOfAds request
    \<and> length responses = numberOfAds request
    \<and> generatedAds result
        = map (generatedAdFor (gen_config gen) request world)
            (filter (passesGate world) (numbered 0 (zip plans responses)))
    \<and> failedAds result
        = map (failedAdFor world)
            (filter (\<lambda>item. \<not> passesGate world item) (numbered 0 (zip plans responses)))
    \<and> costs (gen_costTracker gen')
        = costs (gen_costTracker gen)
          @ map (costEntryFor (gen_config gen) request world)
              (filter (passesGate world) (numbered 0 (zip plans responses)))"
proof -
  from assms obtain plans responses tracker' where
    loop: "scoreLoop (gen_config gen) request world 0 (zip plans responses)
       ([], [], gen_costTracker gen) = (Inr (generatedAds result, failedAds result), tracker')"
    and gen': "gen' = gen\<lparr> gen_costTracker := tracker' \<rparr>"
    and plan: "createGenerationPlan request = Inr plans"
    and batch: "Sora2APIClient_generateBatch (retryConfigOrDefault (gen_config gen)) (itemWorld world)
       (map (planRequest (gen_config gen) request) plans) 3 = Some (Inr responses)"
    by (rule generate_returned)
  from plan have plans: "length plans = numberOfAds request"
    by (auto simp: createGenerationPlan_def dest: planLoop_length)
  from generateBatch_length [OF batch] plans have responses: "length responses = numberOfAds request"
    by simp
  from scoreLoop_records [OF loop] gen' have
    "generatedAds result
        = map (generatedAdFor (gen_config gen) request world)
            (filter (passesGate world) (numbered 0 (zip plans responses)))"
    "failedAds result
        = map (failedAdFor world)
            (filter (\<lambda>item. \<not> passesGate world item) (numbered 0 (zip plans responses)))"
    "costs (gen_costTracker gen')
        = costs (gen_costTracker gen)
          @ map (costEntryFor (gen_config gen) request world)
              (filter (passesGate world) (numbered 0 (zip plans responses)))"
    by simp_all
  with plan batch plans responses show ?thesis
    by blast
qed

text \<open>
  Through \<open>generate\<close> at the boundary: two ads whose jobs both complete, the first video
  scoring 69 and the second 70. The first is a failed ad with code \<open>QualityTooLow\<close> and
  has no cost entry; the second is a generated ad and has the one cost entry of the call.
\<close>

lemma batch_all_complete:
  "Sora2APIClient_generateBatch defaultRetryConfig (itemWorld gradedWorld) [first, second] 3
     = Some (Inr [completedResponse, completedResponse])"
proof -
  have worlds: "itemWorld gradedWorld 0 = completingItem" "itemWorld gradedWorld (Suc 0) = completingItem"
    by (simp_all add: gradedWorld_def)
  have "promiseAll [(settledAt completingItem, Inr completedResponse),
                     (settledAt completingItem, Inr completedResponse)]
      = Inr [completedResponse, completedResponse]"
    by (simp add: promiseAll_def)
  then show ?thesis
    by (simp add: Sora2APIClient_generateBatch_def splitBatches_one worlds item_completing)
qed

lemma generate_graded_run:
  "\<exists>result gen'.
      UGCAdGenerator_generate (newUGCAdGenerator plainConfig) (adsRequest 2) gradedWorld
        = Some (Inr result, gen')
    \<and> map (\<lambda>failed. (failed_id failed, failed_errorCode failed)) (failedAds result)
        = [(''ad-001'', ''QualityTooLow'')]
    \<and> map (\<lambda>ad. (ad_id ad, ad_qualityScore ad)) (generatedAds result) = [(''ad-002'', 70)]
    \<and> map (\<lambda>entry. (amount entry, description entry)) (costs (gen_costTracker gen'))
        = [(10, ''Ad 2 generated'')]"
proof -
  let ?gen = "newUGCAdGenerator plainConfig"
  let ?low = "\<lparr> failed_id = adId 0,
                 failed_error = qualityTooLowMessage (numberText gradedWorld (overall (scoreOf gradedWorld 0))),
                 failed_errorCode = ''QualityTooLow'',
                 failed_prompt = plan_prompt (planAt (adsRequest 2) 0) \<rparr>"
  let ?ad = "generatedAdOf plainConfig (adsRequest 2) (Suc 0) (planAt (adsRequest 2) (Suc 0))
               completedResponse ''https://cdn/v.mp4'' AR_9_16 (scoreOf gradedWorld (Suc 0))
               (calculateVideoCost (durationOr10 (adsRequest 2)) (resolutionOrDefault plainConfig))"
  let ?tracker = "fst (recordCost (recordedAt gradedWorld (Suc 0))
                    (calculateVideoCost (durationOr10 (adsRequest 2)) (resolutionOrDefault plainConfig))
                    (''Ad '' @ showNat (Suc 0 + 1) @ '' generated'') (gen_costTracker ?gen))"
  have two: "[0 ..< 2] = [0, Suc 0]"
    by (simp add: upt_conv_Cons)
  have cfg: "gen_config ?gen = plainConfig"
    by (simp add: newUGCAdGenerator_def)
  have gates: "isValid (validationResult gradedWorld)" "isCompliant (policyCheckResult gradedWorld)"
    by (simp_all add: gradedWorld_def)
  have media: "(if res_status completedResponse = Failed then None
                else truthy (res_videoUrl completedResponse)) = Some ''https://cdn/v.mp4''"
    by (simp add: completedResponse_def)
  have low: "overall (scoreOf gradedWorld 0) < 70"
    and high: "\<not> overall (scoreOf gradedWorld (Suc 0)) < 70"
    by (simp_all add: gradedWorld_def scored_def)
  have first: "scoreItem plainConfig (adsRequest 2) gradedWorld 0 (planAt (adsRequest 2) 0)
        completedResponse ([], [], gen_costTracker ?gen)
      = (Inr ([], [?low]), gen_costTracker ?gen)"
    using scoreItem_lowScore [OF media low, of plainConfig "adsRequest 2" "planAt (adsRequest 2) 0"
        "[]" "[]" "gen_costTracker ?gen"]
    by (simp only: append_Nil)
  have second: "scoreItem plainConfig (adsRequest 2) gradedWorld (Suc 0) (planAt (adsRequest 2) (Suc 0))
        completedResponse ([], [?low], gen_costTracker ?gen)
      = (Inr ([?ad], [?low]), ?tracker)"
    using scoreItem_passed [OF media high example_plan(1) [of 2 "Suc 0"], of plainConfig "adsRequest 2"
        "[]" "[?low]" "gen_costTracker ?gen"]
    by (simp only: append_Nil)
  have loop: "scoreLoop plainConfig (adsRequest 2) gradedWorld 0
        [(planAt (adsRequest 2) 0, completedResponse), (planAt (adsRequest 2) (Suc 0), completedResponse)]
        ([], [], gen_costTracker ?gen)
      = (Inr ([?ad], [?low]), ?tracker)"
    by (simp only: scoreLoop.simps first second prod.case sum.case)
  have run: "UGCAdGenerator_generate ?gen (adsRequest 2) gradedWorld
      = Some (Inr \<lparr> generatedAds = [?ad], failedAds = [?low],
                     totalDuration = (real (finishedAt gradedWorld) - real (startedAt gradedWorld)) / 1000,
                     result_totalCost = getTotalCost ?tracker \<rparr>,
              ?gen\<lparr> gen_costTracker := ?tracker \<rparr>)"
    unfolding UGCAdGenerator_generate_def
    by (simp only: cfg gates example_gates(3) example_plans two list.map batch_all_complete zip.simps
        list.case loop if_False if_True not_True_eq_False not_False_eq_True
        sum.case option.case prod.case simp_thms)
  have ids: "adId 0 = ''ad-001''" "adId (Suc 0) = ''ad-002''"
    "''Ad '' @ showNat (Suc 0 + 1) @ '' generated'' = ''Ad 2 generated''"
    by code_simp+
  have failed: "map (\<lambda>failed. (failed_id failed, failed_errorCode failed)) [?low]
      = [(''ad-001'', ''QualityTooLow'')]"
    by (simp add: ids)
  have generated: "map (\<lambda>ad. (ad_id ad, ad_qualityScore ad)) [?ad] = [(''ad-002'', 70)]"
    by (simp add: generatedAdOf_def ids gradedWorld_def scored_def)
  have "map (\<lambda>entry. (amount entry, description entry)) (costs ?tracker)
      = [(calculateVideoCost (durationOr10 (adsRequest 2)) (resolutionOrDefault plainConfig),
          ''Ad '' @ showNat (Suc 0 + 1) @ '' generated'')]"
    by (simp add: recordCost_def Let_def newUGCAdGenerator_def newCostTracker_def)
  then have ledger: "map (\<lambda>entry. (amount entry, description entry)) (costs ?tracker)
      = [(10, ''Ad 2 generated'')]"
    by (simp only: example_cost ids(3))
  from run failed generated ledger show ?thesis
    by (intro exI [of _ "\<lparr> generatedAds = [?ad], failedAds = [?low],
                     totalDuration = (real (finishedAt gradedWorld) - real (startedAt gradedWorld)) / 1000,
                     result_totalCost = getTotalCost ?tracker \<rparr>"]
              exI [of _ "?gen\<lparr> gen_costTracker := ?tracker \<rparr>"]) simp
qed

text \<open>
  With an empty list of aspect ratios the plan carries none. A video that passes the gate
  is then charged, and the file name of its record cannot be built: \<open>generate\<close> throws
  the \<open>TypeError\<close> with the cost entry already in the history.
\<close>

lemma noAspect_plan:
  "\<exists>prompt. createGenerationPlan noAspectRequest
     = Inr [\<lparr> plan_ugcStyle = Casual, plan_aspectRatio = None, plan_prompt = prompt \<rparr>]"
  by (simp add: createGenerationPlan_def allStylesOf_def noAspectRequest_def planLoop.simps
      roundRobin_def Let_def)

lemma scoreItem_charged:
  "(if res_status response = Failed then None else truthy (res_videoUrl response)) = Some videoUrl
   \<Longrightarrow> \<not> overall (scoreOf world index) < 70
   \<Longrightarrow> plan_aspectRatio plan = None
   \<Longrightarrow> scoreItem cfg request world index plan response (generated, failed, tracker)
       = (Inl replaceOfUndefined,
          fst (recordCost (recordedAt world index)
                 (calculateVideoCost (durationOr10 request) (resolutionOrDefault cfg))
                 (''Ad '' @ showNat (index + 1) @ '' generated'') tracker))"
  by (simp add: scoreItem_def Let_def)

lemma charged_then_thrown:
  "\<exists>gen'.
      UGCAdGenerator_generate (newUGCAdGenerator plainConfig) noAspectRequest (gatesPassed 85)
        = Some (Inl replaceOfUndefined, gen')
    \<and> costs (gen_costTracker (newUGCAdGenerator plainConfig)) = []
    \<and> map amount (costs (gen_costTracker gen')) = [10]"
proof -
  let ?gen = "newUGCAdGenerator plainConfig"
  obtain prompt where plans: "createGenerationPlan noAspectRequest
     = Inr [\<lparr> plan_ugcStyle = Casual, plan_aspectRatio = None, plan_prompt = prompt \<rparr>]"
    using noAspect_plan by blast
  let ?plan = "\<lparr> plan_ugcStyle = Casual, plan_aspectRatio = None, plan_prompt = prompt \<rparr>"
  let ?tracker = "fst (recordCost (recordedAt (gatesPassed 85) 0)
                    (calculateVideoCost (durationOr10 noAspectRequest) (resolutionOrDefault plainConfig))
                    (''Ad '' @ showNat (0 + 1) @ '' generated'') (gen_costTracker ?gen))"
  have cfg: "gen_config ?gen = plainConfig"
    by (simp add: newUGCAdGenerator_def)
  have media: "(if res_status completedResponse = Failed then None
                else truthy (res_videoUrl completedResponse)) = Some ''https://cdn/v.mp4''"
    by (simp add: completedResponse_def)
  have high: "\<not> overall (scoreOf (gatesPassed 85) 0) < 70"
    by (simp add: gatesPassed_def scored_def)
  have none: "plan_aspectRatio ?plan = None"
    by simp
  have loop: "scoreLoop plainConfig noAspectRequest (gatesPassed 85) 0 [(?plan, completedResponse)]
        ([], [], gen_costTracker ?gen)
      = (Inl replaceOfUndefined, ?tracker)"
    by (simp only: scoreLoop.simps scoreItem_charged [OF media high none] prod.case sum.case)
  have run: "UGCAdGenerator_generate ?gen noAspectRequest (gatesPassed 85)
      = Some (Inl replaceOfUndefined, ?gen\<lparr> gen_costTracker := ?tracker \<rparr>)"
    unfolding UGCAdGenerator_generate_def
    by (simp only: cfg example_gates plans list.map batch_of_one zip.simps
        list.case loop if_False if_True not_True_eq_False not_False_eq_True
        sum.case option.case prod.case simp_thms)
  have before: "costs (gen_costTracker ?gen) = []"
    by (simp add: newUGCAdGenerator_def newCostTracker_def)
  have cost: "calculateVideoCost (durationOr10 noAspectRequest) (resolutionOrDefault plainConfig) = 10"
    by (simp add: calculateVideoCost_def durationOr10_def noAspectRequest_def resolutionOrDefault_def
        plainConfig_def SORA2_PRICING_minimumCharge_def)
  have after: "map amount (costs ?tracker) = [10]"
    by (simp add: recordCost_def Let_def newUGCAdGenerator_def newCostTracker_def cost)
  from run before after show ?thesis
    by (intro exI [of _ "?gen\<lparr> gen_costTracker := ?tracker \<rparr>"]) simp
qed

end
